theory Spec2Isabelle
  imports Complex_Main "HOL-Library.AList"
begin

section \<open>Data model\<close>

text \<open>
  The adapter's numbers are JavaScript numbers. They are modelled as exact rationals:
  every value is finite, arithmetic does not round, and a division by zero (which
  JavaScript answers with \<open>Infinity\<close> or \<open>NaN\<close>) is outside the model.
\<close>

datatype OrderSide = Buy | Sell

datatype OrderType = Market | Limit | StopLoss | TakeProfit | TrailingStopLoss

datatype PositionSide = Long | Short

datatype OrderTimeInForce = GoodTillCancel | ImmediateOrCancel | FillOrKill | PostOnly

datatype OrderStatus = Open | Closed | Canceled

record market =
  m_id :: string
  m_symbol :: string
  m_base :: string
  m_quote :: string
  m_active :: bool
  precision_amount :: rat
  precision_price :: rat
  limits_amount_min :: rat
  limits_amount_max :: rat
  limits_minNotional :: rat
  limits_leverage_min :: rat
  limits_leverage_max :: rat

record ticker =
  t_id :: string
  t_symbol :: string
  t_bid :: rat
  t_ask :: rat
  t_last :: rat
  t_mark :: rat
  t_index :: rat
  t_percentage :: rat
  t_fundingRate :: rat
  t_volume :: rat
  t_quoteVolume :: rat
  t_openInterest :: rat

record position =
  p_symbol :: string
  p_side :: PositionSide
  p_entryPrice :: rat
  p_notional :: rat
  p_leverage :: rat
  p_unrealizedPnl :: rat
  p_contracts :: rat
  p_liquidationPrice :: rat

record order =
  o_id :: string
  o_orderId :: string
  o_status :: OrderStatus
  o_symbol :: string
  o_type :: "OrderType option"
  o_side :: "OrderSide option"
  o_price :: rat
  o_amount :: rat
  o_reduceOnly :: bool
  o_filled :: rat
  o_remaining :: rat

record walletAsset =
  a_symbol :: string
  a_walletBalance :: rat
  a_usdValue :: rat

record balance =
  b_total :: rat
  b_free :: rat
  b_used :: rat
  b_upnl :: rat
  b_assets :: "walletAsset list"

record loaded =
  l_markets :: bool
  l_tickers :: bool
  l_balance :: bool
  l_positions :: bool
  l_orders :: bool

record store =
  markets :: "market list"
  tickers :: "ticker list"
  positions :: "position list"
  orders :: "order list"
  s_balance :: balance
  latency :: int
  s_loaded :: loaded
  isHedged :: bool

text \<open>What a caller hands to \<open>placeOrder\<close>: \<open>PlaceOrderOpts\<close>. Optional fields are options.\<close>

record placeOrderOpts =
  symbol :: string
  type :: OrderType
  side :: OrderSide
  price :: "rat option"
  amount :: rat
  timeInForce :: "OrderTimeInForce option"
  reduceOnly :: "bool option"
  stopLoss :: "rat option"
  takeProfit :: "rat option"

record splidOrderOpts =
  sp_symbol :: string
  sp_side :: OrderSide
  sp_type :: OrderType
  sp_amount :: rat
  sp_orders :: nat
  sp_fromPrice :: rat
  sp_toPrice :: rat
  sp_fromScale :: rat
  sp_toScale :: rat
  sp_autoReAdjust :: bool

text \<open>
  A venue payload is a JavaScript object whose values are strings: here an association
  list in insertion order. \<open>Num r\<close> is the template rendering of the number \<open>r\<close>;
  \<open>NaN\<close> is the rendering of a not-a-number; \<open>TypeKey t\<close> and \<open>TifKey f\<close>
  are the keys under which the venue tables \<open>ORDER_TYPE\<close> and \<open>TIME_IN_FORCE\<close> of
  \<open>binance.types\<close> list the values \<open>t\<close> and \<open>f\<close>; \<open>Uuid n\<close> and
  \<open>GeneratedOrderId n\<close> are client order identifiers.
\<close>

datatype fval =
    Str string
  | Num rat
  | NaN
  | TypeKey OrderType
  | TifKey OrderTimeInForce
  | Uuid nat
  | GeneratedOrderId nat

type_synonym payloadOrder = "(string \<times> fval) list"

datatype error =
    MarketNotFound string
  | TickerNotFound string
  | PositionNotFound string
  | PositionSideNotFound string PositionSide

text \<open>
  The user-data stream's events after \<open>jsonParse\<close>, with \<open>parseFloat\<close> already
  applied to the numeric fields: a position slot and a balance slot of an
  \<open>ACCOUNT_UPDATE\<close>, and the \<open>o\<close> object of an \<open>ORDER_TRADE_UPDATE\<close>
  (\<open>od_ot\<close> is \<open>ORDER_TYPE[data.ot]\<close>, \<open>od_n\<close> is absent when \<open>data.n\<close> is
  falsy).
\<close>

record positionSlot =
  ps_s :: string
  ps_ps :: string
  ps_ep :: rat
  ps_pa :: rat
  ps_up :: rat

record balanceSlot =
  bs_a :: string
  bs_wb :: rat

record orderData =
  od_X :: string
  od_c :: string
  od_i :: string
  od_s :: string
  od_ot :: "OrderType option"
  od_S :: string
  od_p :: rat
  od_sp :: rat
  od_q :: rat
  od_z :: rat
  od_R :: bool
  od_T :: int
  od_ap :: rat
  od_rp :: rat
  od_l :: rat
  od_m :: bool
  od_n :: "rat option"

record json =
  j_e :: "string option"
  j_id :: "int option"
  j_a_P :: "positionSlot list"
  j_a_B :: "balanceSlot list"
  j_o :: "orderData option"

record fill =
  f_id :: string
  f_timestamp :: int
  f_side :: "OrderSide option"
  f_symbol :: string
  f_price :: rat
  f_realizedPnl :: rat
  f_amount :: rat
  f_reduceOnly :: bool
  f_maker :: bool
  f_notional :: rat
  f_commission :: "rat option"

text \<open>
  The argument of an \<open>error\<close> emission: \<open>undefined\<close>, a message (the parts of its
  template), or the message of an exception the engine itself raised.
\<close>

datatype errarg = Undefined | Msg "fval list" | EngineMessage

text \<open>What the emitter receives: the channel and its argument.\<close>

datatype emitted =
    EmitError errarg
  | EmitInfo "fval list"
  | EmitOrderManager nat
  | EmitPositionUpdate json
  | EmitFill fill

section \<open>JavaScript helpers\<close>

text \<open>Truthiness of an optional number: defined and not zero.\<close>

definition truthy :: "rat option \<Rightarrow> bool" where
  "truthy x = (case x of None \<Rightarrow> False | Some v \<Rightarrow> v \<noteq> 0)"

text \<open>\<open>Math.round\<close> rounds a half upwards; \<open>Math.ceil\<close> is the ceiling.\<close>

definition Math_round :: "rat \<Rightarrow> int" where
  "Math_round x = \<lfloor>x + 1 / 2\<rfloor>"

definition Math_ceil :: "rat \<Rightarrow> int" where
  "Math_ceil x = \<lceil>x\<rceil>"

definition trunc :: "rat \<Rightarrow> int" where
  "trunc x = (if 0 \<le> x then \<lfloor>x\<rfloor> else \<lceil>x\<rceil>)"

text \<open>The remainder operator \<open>a % b\<close>: the sign of the dividend.\<close>

definition js_rem :: "rat \<Rightarrow> rat \<Rightarrow> rat" where
  "js_rem a b = a - b * of_int (trunc (a / b))"

text \<open>
  Modelled from the spec: \<open>adjust\<close> of \<open>utils/safe-math\<close> is not among the sources.
  The spec: "Snap amount to market precision.amount (floor toward zero at the step)".
\<close>

definition adjust :: "rat \<Rightarrow> rat \<Rightarrow> rat" where
  "adjust v step = of_int (trunc (v / step)) * step"

text \<open>
  Modelled from the spec: \<open>ORDER_SIDE\<close> of \<open>binance.types\<close> is not among the
  sources. The spec writes the venue's side of a Sell as \<open>side=SELL\<close>.
\<close>

definition inverse_ORDER_SIDE :: "OrderSide \<Rightarrow> fval" where
  "inverse_ORDER_SIDE s = (case s of Buy \<Rightarrow> Str ''BUY'' | Sell \<Rightarrow> Str ''SELL'')"

text \<open>\<open>omitUndefined\<close> drops the keys whose value is undefined.\<close>

definition omitUndefined :: "(string \<times> fval option) list \<Rightarrow> payloadOrder" where
  "omitUndefined kvs = List.map_filter (\<lambda>(k, v). map_option (Pair k) v) kvs"

text \<open>
  Modelled from the spec: \<open>uuid\<close> and \<open>generateOrderId\<close> of \<open>utils/uuid\<close> are not
  among the sources. The spec: "Assign a fresh client ID to every payload"; the
  \<open>n\<close>-th identifier drawn in a session is \<open>Uuid n\<close>, and the counter is threaded
  through the formatter.
\<close>

definition uuid :: "nat \<Rightarrow> fval \<times> nat" where
  "uuid n = (Uuid n, Suc n)"

definition generateOrderId :: "nat \<Rightarrow> fval \<times> nat" where
  "generateOrderId n = (GeneratedOrderId n, Suc n)"

section \<open>Order formatter\<close>

definition getOrderPositionSide :: "store \<Rightarrow> OrderSide \<Rightarrow> OrderType \<Rightarrow> bool option \<Rightarrow> string" where
  "getOrderPositionSide st sd ty ro =
     (if isHedged st then
        (let positionSide = (if sd = Buy then ''LONG'' else ''SHORT'') in
         if ty = StopLoss \<or> ty = TakeProfit \<or> ty = TrailingStopLoss \<or> ro = Some True
         then (if positionSide = ''LONG'' then ''SHORT'' else ''LONG'')
         else positionSide)
      else ''BOTH'')"

definition formatCreateTrailingStopLossOrder ::
  "store \<Rightarrow> placeOrderOpts \<Rightarrow> nat \<Rightarrow> error + (payloadOrder list \<times> nat)" where
  "formatCreateTrailingStopLossOrder st opts n =
     (let mk = find (\<lambda>m. m_symbol m = symbol opts) (markets st);
          tk = find (\<lambda>t. t_symbol t = symbol opts) (tickers st);
          pSide = (if side opts = Buy then Short else Long);
          pos = find (\<lambda>p. p_symbol p = symbol opts \<and> p_side p = pSide) (positions st)
      in case mk of None \<Rightarrow> Inl (MarketNotFound (symbol opts)) | Some m \<Rightarrow>
         (case tk of None \<Rightarrow> Inl (TickerNotFound (symbol opts)) | Some t \<Rightarrow>
         (case pos of None \<Rightarrow> Inl (PositionSideNotFound (symbol opts) pSide) | Some p \<Rightarrow>
           (let distancePercentage =
                  (case price opts of None \<Rightarrow> NaN | Some pr \<Rightarrow>
                     (let priceDistance = adjust (max (t_last t) pr - min (t_last t) pr) (precision_price m)
                      in Num (of_int (Math_round (((priceDistance * 100) / t_last t) * 10)) / 10)));
                (cid, n') = uuid n;
                payload = [(''symbol'', Str (symbol opts)),
                           (''positionSide'', Str (getOrderPositionSide st (side opts) (type opts) (reduceOnly opts))),
                           (''side'', inverse_ORDER_SIDE (side opts)),
                           (''type'', TypeKey TrailingStopLoss),
                           (''quantity'', Num (p_contracts p)),
                           (''callbackRate'', distancePercentage),
                           (''priceProtect'', Str ''true''),
                           (''newClientOrderId'', cid)]
            in Inr ([payload], n')))))"

text \<open>The closing loop of \<open>formatCreateOrder\<close>: every payload gets its own identifier.\<close>

fun assign_ids :: "payloadOrder list \<Rightarrow> nat \<Rightarrow> payloadOrder list \<times> nat" where
  "assign_ids [] n = ([], n)"
| "assign_ids (p # ps) n =
     (let (cid, n1) = uuid n;
          (ps', n2) = assign_ids ps n1
      in (AList.update ''newClientOrderId'' cid p # ps', n2))"

text \<open>The stop-loss or take-profit payload attached to a simple order.\<close>

definition attached :: "payloadOrder \<Rightarrow> OrderSide \<Rightarrow> OrderType \<Rightarrow> rat \<Rightarrow> payloadOrder" where
  "attached req sd ty stop =
     AList.update ''closePosition'' (Str ''true'')
       (AList.update ''timeInForce'' (Str ''GTC'')
         (AList.update ''stopPrice'' (Num stop)
           (AList.update ''type'' (TypeKey ty)
             (AList.update ''side'' (inverse_ORDER_SIDE (if sd = Buy then Sell else Buy))
               (AList.delete ''price'' req)))))"

text \<open>The object \<open>req\<close> of \<open>formatCreateOrder\<close>: the fields every payload of an order shares.\<close>

definition formatCreateOrder_req :: "store \<Rightarrow> placeOrderOpts \<Rightarrow> market \<Rightarrow> payloadOrder" where
  "formatCreateOrder_req st opts m =
     (let isStopOrTP = (type opts = StopLoss \<or> type opts = TakeProfit);
          pSide = getOrderPositionSide st (side opts) (type opts) (reduceOnly opts);
          pPrice = precision_price m;
          pAmount = precision_amount m;
          amt = adjust (amount opts) pAmount;
          prc = (if truthy (price opts) \<and> type opts \<noteq> Market
                 then Some (adjust (the (price opts)) pPrice) else None);
          priceField = (if isStopOrTP then ''stopPrice'' else ''price'');
          rOnly = (\<not> isHedged st \<and> reduceOnly opts = Some True);
          tif = (case timeInForce opts of Some f \<Rightarrow> TifKey f | None \<Rightarrow> TifKey GoodTillCancel)
      in omitUndefined
           [(''symbol'', Some (Str (symbol opts))),
            (''positionSide'', Some (Str pSide)),
            (''side'', Some (inverse_ORDER_SIDE (side opts))),
            (''type'', Some (TypeKey (type opts))),
            (''quantity'', if amt \<noteq> 0 then Some (Num amt) else None),
            (priceField, if truthy prc then Some (Num (the prc)) else None),
            (''timeInForce'', if type opts = Limit then Some tif else None),
            (''closePosition'', if isStopOrTP then Some (Str ''true'') else None),
            (''reduceOnly'', if rOnly \<and> \<not> isStopOrTP then Some (Str ''true'') else None)])"

text \<open>The payloads of \<open>formatCreateOrder\<close> before the identifiers are assigned.\<close>

definition formatCreateOrder_payloads :: "store \<Rightarrow> placeOrderOpts \<Rightarrow> market \<Rightarrow> payloadOrder list" where
  "formatCreateOrder_payloads st opts m =
     (let maxSize = limits_amount_max m;
          pAmount = precision_amount m;
          amt = adjust (amount opts) pAmount;
          req = formatCreateOrder_req st opts m;
          lots = (if amt > maxSize then Math_ceil (amt / maxSize) else 1);
          rest = (if amt > maxSize then adjust (js_rem amt maxSize) pAmount else 0);
          lotSize = adjust ((amt - rest) / of_int lots) pAmount;
          payloads0 = replicate (nat lots) (AList.update ''quantity'' (Num lotSize) req);
          payloads1 = (if rest \<noteq> 0
                       then payloads0 @ [AList.update ''quantity'' (Num rest) req]
                       else payloads0);
          payloads2 = (if truthy (stopLoss opts)
                       then payloads1 @ [attached req (side opts) StopLoss (the (stopLoss opts))]
                       else payloads1)
      in if truthy (takeProfit opts)
         then payloads2 @ [attached req (side opts) TakeProfit (the (takeProfit opts))]
         else payloads2)"

definition formatCreateOrder ::
  "store \<Rightarrow> placeOrderOpts \<Rightarrow> nat \<Rightarrow> error + (payloadOrder list \<times> nat)" where
  "formatCreateOrder st opts n =
     (if type opts = TrailingStopLoss then formatCreateTrailingStopLossOrder st opts n
      else case find (\<lambda>m. m_symbol m = symbol opts) (markets st) of
        None \<Rightarrow> Inl (MarketNotFound (symbol opts))
      | Some m \<Rightarrow> Inr (assign_ids (formatCreateOrder_payloads st opts m) n))"

subsection \<open>Split orders\<close>

text \<open>
  Modelled from the spec: \<open>calculateWeights\<close> of \<open>utils/scaleWeights\<close> is not among
  the sources. The spec: "W = sum over i in [0, N) of (s0 + (s1 - s0) * i / (N - 1)) (or
  N * s0 when s0 == s1)".
\<close>

definition calculateWeights :: "rat \<Rightarrow> rat \<Rightarrow> nat \<Rightarrow> rat" where
  "calculateWeights fromScale toScale n =
     (if fromScale = toScale then of_nat n * fromScale
      else sum_list (map (\<lambda>i. fromScale + (toScale - fromScale) * of_nat i / of_nat (n - 1)) [0..<n]))"

text \<open>The test the formatter applies to the smallest slice, for a given number of orders.\<close>

definition infeasible :: "rat \<Rightarrow> rat \<Rightarrow> rat \<Rightarrow> rat \<Rightarrow> rat \<Rightarrow> rat \<Rightarrow> nat \<Rightarrow> bool" where
  "infeasible fromScale toScale quantity minSize minNotional fromPrice n =
     (let lowestSize = (fromScale / calculateWeights fromScale toScale n) * quantity
      in lowestSize < minSize \<or> lowestSize * fromPrice < minNotional)"

text \<open>
  Modelled from the spec: \<open>calcValidOrdersCount\<close> of \<open>utils/scaleWeights\<close> is not
  among the sources. The spec: "search for the largest N' <= N that keeps the smallest
  slice feasible". The search runs downwards from \<open>N\<close> and answers 0 when no count is
  feasible.
\<close>

primrec calcValidOrdersCount :: "rat \<Rightarrow> rat \<Rightarrow> rat \<Rightarrow> rat \<Rightarrow> rat \<Rightarrow> rat \<Rightarrow> nat \<Rightarrow> nat" where
  "calcValidOrdersCount fromScale toScale quantity minSize minNotional fromPrice 0 = 0"
| "calcValidOrdersCount fromScale toScale quantity minSize minNotional fromPrice (Suc n) =
     (if \<not> infeasible fromScale toScale quantity minSize minNotional fromPrice (Suc n) then Suc n
      else calcValidOrdersCount fromScale toScale quantity minSize minNotional fromPrice n)"

text \<open>One pass of the loop of \<open>formatCreateSplitOrders\<close>: the payload of rung \<open>i\<close>.\<close>

definition split_rung ::
  "splidOrderOpts \<Rightarrow> market \<Rightarrow> string \<Rightarrow> rat \<Rightarrow> rat \<Rightarrow> nat \<Rightarrow> fval \<Rightarrow> payloadOrder \<times> rat" where
  "split_rung opts m pSide quantity totalWeight i cid =
     (let minNotional = limits_minNotional m;
          priceStep = (sp_toPrice opts - sp_fromPrice opts) / (of_nat (sp_orders opts) - 1);
          weightOfOrder = sp_fromScale opts +
            (sp_toScale opts - sp_fromScale opts) * (of_nat i / (of_nat (sp_orders opts) - 1));
          sizeOfOrder0 = quantity * (weightOfOrder / totalWeight);
          prc = sp_fromPrice opts + priceStep * of_nat i;
          sizeOfOrder = (if sizeOfOrder0 * prc < minNotional * (105 / 100)
                         then (minNotional * (11 / 10)) / prc else sizeOfOrder0)
      in (omitUndefined
            [(''symbol'', Some (Str (sp_symbol opts))),
             (''positionSide'', Some (Str pSide)),
             (''side'', Some (inverse_ORDER_SIDE (sp_side opts))),
             (''type'', Some (TypeKey (sp_type opts))),
             (''quantity'', Some (Num (adjust sizeOfOrder (precision_amount m)))),
             (''timeInForce'', Some (Str ''GTC'')),
             (''price'', Some (Num (adjust prc (precision_price m)))),
             (''reduceOnly'', Some (Str ''false'')),
             (''newClientOrderId'', Some cid)],
          adjust sizeOfOrder (precision_amount m)))"

text \<open>The loop: rungs \<open>i, i + 1, ...\<close>, \<open>k\<close> of them, with the running total.\<close>

fun split_loop ::
  "splidOrderOpts \<Rightarrow> market \<Rightarrow> string \<Rightarrow> rat \<Rightarrow> rat \<Rightarrow> nat \<Rightarrow> nat \<Rightarrow> nat \<Rightarrow> rat \<Rightarrow>
   payloadOrder list \<times> nat \<times> rat" where
  "split_loop opts m pSide quantity totalWeight i 0 n tot = ([], n, tot)"
| "split_loop opts m pSide quantity totalWeight i (Suc k) n tot =
     (let (cid, n1) = generateOrderId n;
          (req, q) = split_rung opts m pSide quantity totalWeight i cid;
          (reqs, n2, tot1) = split_loop opts m pSide quantity totalWeight (Suc i) k n1 (tot + q)
      in (req # reqs, n2, tot1))"

definition formatCreateSplitOrders ::
  "store \<Rightarrow> splidOrderOpts \<Rightarrow> nat \<Rightarrow> error + (emitted list \<times> payloadOrder list \<times> nat)" where
  "formatCreateSplitOrders st opts n =
     (case find (\<lambda>m. m_symbol m = sp_symbol opts) (markets st) of
        None \<Rightarrow> Inl (MarketNotFound (sp_symbol opts))
      | Some m \<Rightarrow>
     (case find (\<lambda>t. t_symbol t = sp_symbol opts) (tickers st) of
        None \<Rightarrow> Inl (TickerNotFound (sp_symbol opts))
      | Some t \<Rightarrow>
        (let minSize = limits_amount_min m;
             minNotional = limits_minNotional m;
             pSide = getOrderPositionSide st (sp_side opts) (sp_type opts) None;
             avgPrice = (sp_fromPrice opts + sp_toPrice opts) / 2;
             quantity = sp_amount opts / avgPrice;
             infos = [EmitInfo [Str ''Splitting '', Num (sp_amount opts), Str '' into '',
                                Num (of_nat (sp_orders opts))],
                      EmitInfo [Str ''Quantity: '', Num quantity]];
             totalWeight = calculateWeights (sp_fromScale opts) (sp_toScale opts) (sp_orders opts);
             lowestSize = (sp_fromScale opts / totalWeight) * quantity;
             validOrdersAmount = calcValidOrdersCount (sp_fromScale opts) (sp_toScale opts) quantity
                                   minSize minNotional (sp_fromPrice opts) (sp_orders opts);
             reAdjustedWeight = calculateWeights (sp_fromScale opts) (sp_toScale opts) validOrdersAmount;
             newLowestSize = (sp_fromScale opts / reAdjustedWeight) * quantity;
             (reqs, n', totalQuantity) = split_loop opts m pSide quantity totalWeight 0 (sp_orders opts) n 0;
             placed = Inr (infos @ [EmitInfo [Str ''Total Quantity: '', Num totalQuantity]], reqs, n')
         in if lowestSize < minSize \<or> lowestSize * sp_fromPrice opts < minNotional then
              (if sp_autoReAdjust opts then
                 (if validOrdersAmount < 3 then
                    Inr (infos @ [EmitError (Msg [Str ''Bruh either u poor or retardio cannot split''])], [], n)
                  else if newLowestSize < minSize \<or> newLowestSize * sp_fromPrice opts < minNotional then
                    Inr (infos @ [EmitError (Msg [Str ''WTF u doing something wrong wen spliting orders '',
                                                  Num (of_nat validOrdersAmount)])], [], n)
                  else placed)
               else
                 Inr (infos @ [EmitError (Msg [Str ''Scale too extreme to split orders - no adjustments made''])],
                      [], n))
            else placed)))"

text \<open>A payload as a map of its fields, the position side left out.\<close>

definition without_positionSide :: "payloadOrder \<Rightarrow> string \<Rightarrow> fval option" where
  "without_positionSide p = (map_of p)(''positionSide'' := None)"

section \<open>Dispatch queue\<close>

text \<open>
  The fields of \<open>OrderQueueManager\<close>, and \<open>dispatched\<close>: the calls of
  \<open>placeOrderBatchFast\<close> made so far, each with the clock reading its payloads were
  charged at. The completions of those calls touch only \<open>results\<close> and are not
  modelled.
\<close>

record 'a orderQueueManager =
  queue :: "'a list"
  processing :: bool
  orderTimestamps10s :: "int list"
  orderTimestamps60s :: "int list"
  dispatched :: "(int \<times> 'a list) list"
  q_emitted :: "emitted list"

definition new_OrderQueueManager :: "'a orderQueueManager" where
  "new_OrderQueueManager =
     \<lparr>queue = [], processing = False, orderTimestamps10s = [], orderTimestamps60s = [],
      dispatched = [], q_emitted = []\<rparr>"

definition enqueueOrders :: "'a list \<Rightarrow> 'a orderQueueManager \<Rightarrow> 'a orderQueueManager" where
  "enqueueOrders os q =
     (let q1 = q\<lparr>queue := queue q @ os\<rparr>;
          q2 = q1\<lparr>q_emitted := q_emitted q1 @ [EmitOrderManager (length (queue q1))]\<rparr>
      in if \<not> processing q2 then q2\<lparr>processing := True\<rparr> else q2)"

text \<open>
  What one pass of the loop of \<open>processOrders\<close> asks of the timer: the milliseconds
  to sleep; \<open>None\<close> is a \<open>NaN\<close> delay.
\<close>

datatype pass = Saturated "rat option" | Dispatched "rat"

text \<open>
  One pass of the \<open>while\<close> loop of \<open>processOrders\<close>, entered with a non-empty
  queue, at the clock reading \<open>now\<close>.
\<close>

definition processOrders_pass :: "int \<Rightarrow> 'a orderQueueManager \<Rightarrow> 'a orderQueueManager \<times> pass" where
  "processOrders_pass now q =
     (let ts10 = filter (\<lambda>timestamp. now - timestamp < 10000) (orderTimestamps10s q);
          ts60 = filter (\<lambda>timestamp. now - timestamp < 60000) (orderTimestamps60s q);
          q1 = q\<lparr>orderTimestamps10s := ts10, orderTimestamps60s := ts60\<rparr>
      in if length ts10 \<ge> 300 \<or> length ts60 \<ge> 1200 then
           (q1, Saturated (case (ts10, ts60) of
                             (a # _, b # _) \<Rightarrow> Some (of_int (now - min a b + 1))
                           | _ \<Rightarrow> None))
         else
           (let maxAllowedSize = min (300 - length ts10) (min (1200 - length ts60) (min (length (queue q)) 5));
                batch = take maxAllowedSize (queue q);
                rest = drop maxAllowedSize (queue q);
                new10 = ts10 @ replicate (length batch) now;
                new60 = ts60 @ replicate (length batch) now;
                remainingTime10s = 10000 - (now - hd new10);
                remainingTime60s = 60000 - (now - hd new60);
                remainingLots10s = (300 - int (length new10)) div 5;
                remainingLots60s = (1200 - int (length new60)) div 5;
                sleepTime10s = (if remainingLots10s > 0
                                then of_int remainingTime10s / of_int remainingLots10s else 1000);
                sleepTime60s = (if remainingLots60s > 0
                                then of_int remainingTime60s / of_int remainingLots60s else 1000)
            in (q\<lparr>queue := rest,
                  orderTimestamps10s := new10,
                  orderTimestamps60s := new60,
                  dispatched := dispatched q @ [(now, batch)],
                  q_emitted := q_emitted q @ [EmitOrderManager (length rest)]\<rparr>,
                Dispatched (min sleepTime10s sleepTime60s))))"

text \<open>
  What happens to a queue manager: a call of \<open>enqueueOrders\<close>, or the processing task
  reaching the head of its loop and reading \<open>now\<close> from the clock. With an empty
  queue the task leaves the loop and clears \<open>processing\<close>.
\<close>

datatype 'a event = Enqueue "'a list" | Pass int

definition step :: "'a event \<Rightarrow> 'a orderQueueManager \<Rightarrow> 'a orderQueueManager" where
  "step ev q =
     (case ev of
        Enqueue os \<Rightarrow> enqueueOrders os q
      | Pass now \<Rightarrow>
          if \<not> processing q then q
          else if queue q = [] then q\<lparr>processing := False\<rparr>
          else fst (processOrders_pass now q))"

definition run :: "'a event list \<Rightarrow> 'a orderQueueManager \<Rightarrow> 'a orderQueueManager" where
  "run evs q = fold step evs q"

text \<open>The clock readings of a history, in order.\<close>

fun readings :: "'a event list \<Rightarrow> int list" where
  "readings [] = []"
| "readings (Enqueue os # evs) = readings evs"
| "readings (Pass now # evs) = now # readings evs"

text \<open>
  The timestamps the dispatched payloads were charged at, payload by payload, and how
  many of them lie in the window of \<open>w\<close> milliseconds that ends at \<open>t\<close>.
\<close>

definition charges :: "'a orderQueueManager \<Rightarrow> int list" where
  "charges q = concat (map (\<lambda>(now, batch). replicate (length batch) now) (dispatched q))"

definition admitted_within :: "'a orderQueueManager \<Rightarrow> int \<Rightarrow> int \<Rightarrow> nat" where
  "admitted_within q w t = length (filter (\<lambda>ts. t - w < ts \<and> ts \<le> t) (charges q))"

section \<open>Private stream\<close>

text \<open>
  The private websocket: its disposal flag, the time of the last ping, the timeout it
  remembers, the timeouts of \<open>ping\<close> that are pending (identifier and delay in
  milliseconds), the identifier the next \<open>setTimeout\<close> returns, and the pings sent.
\<close>

record privateWebsocket =
  ws_isDisposed :: bool
  pingAt :: rat
  pingTimeoutId :: "nat option"
  timeouts :: "(nat \<times> nat) list"
  nextTimeoutId :: nat
  pings :: nat

text \<open>
  Modelled from the spec: \<open>POSITION_SIDE\<close> of \<open>binance.types\<close> is not among the
  sources. The spec: "side decoded from venue ps", the venue's sides being \<open>LONG\<close> and
  \<open>SHORT\<close>.
\<close>

definition POSITION_SIDE :: "string \<Rightarrow> PositionSide option" where
  "POSITION_SIDE ps = (if ps = ''LONG'' then Some Long else if ps = ''SHORT'' then Some Short else None)"

text \<open>Modelled from the spec: the table \<open>ORDER_SIDE\<close>, read from the venue's side.\<close>

definition ORDER_SIDE :: "string \<Rightarrow> OrderSide option" where
  "ORDER_SIDE s = (if s = ''BUY'' then Some Buy else if s = ''SELL'' then Some Sell else None)"

text \<open>The first element that satisfies \<open>P\<close> is replaced by its image.\<close>

fun update_first :: "('a \<Rightarrow> bool) \<Rightarrow> ('a \<Rightarrow> 'a) \<Rightarrow> 'a list \<Rightarrow> 'a list" where
  "update_first P f [] = []"
| "update_first P f (x # xs) = (if P x then f x # xs else x # update_first P f xs)"

text \<open>
  Modelled from the spec: the store is not among the sources. \<open>updatePosition\<close>
  merges the changes into the stored position of that symbol and side ("if present,
  update entryPrice, contracts, notional, unrealizedPnl"); \<open>updatePositions\<close> sets the
  leverage of the positions a selector names ("leverage set via explicit call");
  \<open>updateBalance\<close> stores the balance and recomputes its total ("then recompute
  balance totals"); \<open>addOrUpdateOrder\<close> upserts by client identifier and
  \<open>removeOrder\<close> removes by it.
\<close>

definition updatePosition :: "position \<Rightarrow> (position \<Rightarrow> position) \<Rightarrow> store \<Rightarrow> store" where
  "updatePosition pos changes st =
     st\<lparr>positions := update_first (\<lambda>p. p_symbol p = p_symbol pos \<and> p_side p = p_side pos)
                           changes (positions st)\<rparr>"

definition updatePositions :: "(string \<times> PositionSide \<times> rat) list \<Rightarrow> store \<Rightarrow> store" where
  "updatePositions ups st =
     fold (\<lambda>(smb, sd, lev) s.
            s\<lparr>positions := map (\<lambda>p. if p_symbol p = smb \<and> p_side p = sd
                                     then p\<lparr>p_leverage := lev\<rparr> else p) (positions s)\<rparr>) ups st"

definition updateBalance :: "balance \<Rightarrow> store \<Rightarrow> store" where
  "updateBalance b st = st\<lparr>s_balance := b\<lparr>b_total := sum_list (map a_usdValue (b_assets b))\<rparr>\<rparr>"

definition addOrUpdateOrder :: "order \<Rightarrow> store \<Rightarrow> store" where
  "addOrUpdateOrder ord st =
     (if \<exists>x\<in>set (orders st). o_id x = o_id ord
      then st\<lparr>orders := update_first (\<lambda>x. o_id x = o_id ord) (\<lambda>_. ord) (orders st)\<rparr>
      else st\<lparr>orders := orders st @ [ord]\<rparr>)"

definition removeOrder :: "string \<Rightarrow> store \<Rightarrow> store" where
  "removeOrder cid st = st\<lparr>orders := filter (\<lambda>x. o_id x \<noteq> cid) (orders st)\<rparr>"

text \<open>One position slot of an \<open>ACCOUNT_UPDATE\<close>.\<close>

definition handlePositionSlot :: "positionSlot \<Rightarrow> store \<Rightarrow> store" where
  "handlePositionSlot p st =
     (let symbol = ps_s p;
          side = POSITION_SIDE (ps_ps p)
      in case find (\<lambda>p2. p_symbol p2 = symbol \<and> Some (p_side p2) = side) (positions st) of
           None \<Rightarrow> st
         | Some pos \<Rightarrow>
            (let entryPrice = ps_ep p;
                 contracts = ps_pa p;
                 upnl = ps_up p
             in updatePosition pos
                  (\<lambda>x. x\<lparr>p_entryPrice := entryPrice,
                         p_contracts := contracts,
                         p_notional := contracts * entryPrice + upnl,
                         p_unrealizedPnl := upnl\<rparr>) st))"

text \<open>One balance slot: the asset of that symbol, when there is one, gets the wallet balance.\<close>

definition handleBalanceSlot :: "balanceSlot \<Rightarrow> store \<Rightarrow> store" where
  "handleBalanceSlot b st =
     st\<lparr>s_balance := (s_balance st)\<lparr>b_assets :=
          update_first (\<lambda>a. a_symbol a = bs_a b) (\<lambda>a. a\<lparr>a_walletBalance := bs_wb b\<rparr>)
            (b_assets (s_balance st))\<rparr>\<rparr>"

definition handleAccountEvents :: "json \<Rightarrow> store \<times> emitted list \<Rightarrow> store \<times> emitted list" where
  "handleAccountEvents event = (\<lambda>(st, em).
     (let st1 = fold handlePositionSlot (j_a_P event) st;
          st2 = fold handleBalanceSlot (j_a_B event) st1
      in (updateBalance (s_balance st2) st2, em @ [EmitPositionUpdate event])))"

definition handleOrderEvents :: "orderData \<Rightarrow> store \<times> emitted list \<Rightarrow> store \<times> emitted list" where
  "handleOrderEvents d = (\<lambda>(st, em).
     (let em1 = (if od_X d = ''PARTIALLY_FILLED'' \<or> od_X d = ''FILLED''
                 then em @ [EmitFill \<lparr>f_id = od_c d, f_timestamp = od_T d, f_side = ORDER_SIDE (od_S d),
                                        f_symbol = od_s d, f_price = od_ap d, f_realizedPnl = od_rp d,
                                        f_amount = od_l d, f_reduceOnly = od_R d, f_maker = od_m d,
                                        f_notional = od_l d * od_ap d, f_commission = od_n d\<rparr>]
                 else em);
          st1 = (if od_X d = ''NEW''
                 then addOrUpdateOrder
                        \<lparr>o_id = od_c d, o_orderId = od_i d, o_status = Open, o_symbol = od_s d,
                         o_type = od_ot d, o_side = ORDER_SIDE (od_S d),
                         o_price = (if od_p d \<noteq> 0 then od_p d else od_sp d),
                         o_amount = od_q d, o_reduceOnly = od_R d, o_filled = od_z d,
                         o_remaining = od_q d - od_z d\<rparr> st
                 else st);
          st2 = (if od_X d = ''CANCELED'' \<or> od_X d = ''FILLED'' \<or> od_X d = ''EXPIRED''
                 then removeOrder (od_c d) st1 else st1)
      in (st2, em1)))"

definition ping :: "rat \<Rightarrow> privateWebsocket \<Rightarrow> privateWebsocket" where
  "ping now ws = (if \<not> ws_isDisposed ws then ws\<lparr>pingAt := now, pings := Suc (pings ws)\<rparr> else ws)"

text \<open>\<open>clearTimeout\<close> and \<open>setTimeout(() => this.ping(), delay)\<close>.\<close>

definition clearTimeout :: "nat \<Rightarrow> privateWebsocket \<Rightarrow> privateWebsocket" where
  "clearTimeout i ws = ws\<lparr>timeouts := filter (\<lambda>(j, d). j \<noteq> i) (timeouts ws)\<rparr>"

definition setTimeout :: "nat \<Rightarrow> privateWebsocket \<Rightarrow> nat \<times> privateWebsocket" where
  "setTimeout delay ws =
     (nextTimeoutId ws,
      ws\<lparr>timeouts := timeouts ws @ [(nextTimeoutId ws, delay)], nextTimeoutId := Suc (nextTimeoutId ws)\<rparr>)"

text \<open>
  \<open>onMessage\<close> at the clock reading \<open>now\<close> of \<open>performance.now()\<close>; the message
  is \<open>None\<close> when \<open>jsonParse\<close> could not read it. An \<open>ORDER_TRADE_UPDATE\<close>
  without its \<open>o\<close> object raises inside the listener, which ends there.
\<close>

definition onMessage ::
  "rat \<Rightarrow> json option \<Rightarrow> privateWebsocket \<times> store \<times> emitted list \<Rightarrow>
   privateWebsocket \<times> store \<times> emitted list" where
  "onMessage now msg = (\<lambda>(ws, st, em).
     if ws_isDisposed ws then (ws, st, em)
     else case msg of None \<Rightarrow> (ws, st, em) | Some j \<Rightarrow>
       (let (st1, em1) = (if j_e j = Some ''ACCOUNT_UPDATE'' then handleAccountEvents j (st, em)
                          else (st, em))
        in if j_e j = Some ''ORDER_TRADE_UPDATE'' \<and> j_o j = None then (ws, st1, em1)
           else
            (let (st2, em2) = (if j_e j = Some ''ORDER_TRADE_UPDATE''
                               then handleOrderEvents (the (j_o j)) (st1, em1) else (st1, em1))
             in if j_id j = Some 42 then
                  (let diff = now - pingAt ws;
                       st3 = st2\<lparr>latency := Math_round (diff / 2)\<rparr>;
                       ws1 = (case pingTimeoutId ws of
                                Some i \<Rightarrow> if i \<noteq> 0 then (clearTimeout i ws)\<lparr>pingTimeoutId := None\<rparr> else ws
                              | None \<Rightarrow> ws);
                       (i, ws2) = setTimeout 10000 ws1
                   in (ws2\<lparr>pingTimeoutId := Some i\<rparr>, st3, em2))
                else (ws, st2, em2))))"

section \<open>Bootstrap, tick and leverage\<close>

text \<open>
  What a failed request throws: \<open>err.response.data.msg\<close> and \<open>err.message\<close>, each
  possibly absent. \<open>thrown_message\<close> is \<open>err?.response?.data?.msg || err?.message\<close>.
\<close>

record xhrError =
  response_data_msg :: "string option"
  message :: "string option"

definition thrown_message :: "xhrError \<Rightarrow> errarg" where
  "thrown_message err =
     (let msg = (case message err of Some s \<Rightarrow> Msg [Str s] | None \<Rightarrow> Undefined)
      in case response_data_msg err of
           Some s \<Rightarrow> if s \<noteq> [] then Msg [Str s] else msg
         | None \<Rightarrow> msg)"

text \<open>The venue's answers, with the fields the adapter reads already parsed.\<close>

record rawSymbol =
  rs_symbol :: string
  rs_contractType :: string
  rs_marginAsset :: string
  rs_baseAsset :: string
  rs_quoteAsset :: string
  rs_status :: string
  rs_tickSize :: rat
  rs_stepSize :: rat
  rs_lot_minQty :: rat
  rs_lot_maxQty :: rat
  rs_mlot_minQty :: rat
  rs_mlot_maxQty :: rat
  rs_notional :: rat

record rawBook =
  rb_symbol :: string
  rb_bidPrice :: rat
  rb_askPrice :: rat

record rawDaily =
  rd_symbol :: string
  rd_lastPrice :: rat
  rd_priceChangePercent :: rat
  rd_volume :: rat
  rd_quoteVolume :: rat

record rawPrice =
  rp_symbol :: string
  rp_markPrice :: rat
  rp_indexPrice :: rat
  rp_lastFundingRate :: rat

record rawPosition =
  rpos_symbol :: string
  rpos_entryPrice :: rat
  rpos_positionAmt :: rat
  rpos_unrealizedProfit :: rat
  rpos_positionSide :: string
  rpos_leverage :: rat
  rpos_liquidationPrice :: rat

record rawAccount =
  ra_availableBalance :: rat
  ra_totalInitialMargin :: rat
  ra_totalUnrealizedProfit :: rat
  ra_assets :: "(string \<times> rat) list"
  ra_positions :: "rawPosition list"

record rawOrder =
  ro_clientOrderId :: string
  ro_orderId :: string
  ro_symbol :: string
  ro_type :: "OrderType option"
  ro_side :: string
  ro_price :: rat
  ro_stopPrice :: rat
  ro_origQty :: rat
  ro_executedQty :: rat
  ro_reduceOnly :: bool

definition unwantedSymbols :: "string list" where
  "unwantedSymbols =
     [''BTSUSDT'', ''TOMOUSDT'', ''SCUSDT'', ''HNTUSDT'', ''SRMUSDT'', ''FTTUSDT'', ''RAYUSDT'',
      ''CVCUSDT'', ''COCOSUSDT'', ''STRAXUSDT'', ''DGBUSDT'', ''CTKUSDT'', ''ANTUSDT'']"

text \<open>
  \<open>fetchMarkets\<close>: the two requests answer with an error or with their data (the
  leverage brackets as symbol and \<open>initialLeverage\<close> of the first bracket). A symbol
  without brackets raises inside the \<open>try\<close>.
\<close>

definition fetchMarkets ::
  "store \<Rightarrow> xhrError + rawSymbol list \<Rightarrow> xhrError + (string \<times> rat) list \<Rightarrow> emitted list \<times> market list" where
  "fetchMarkets st r_markets r_brackets =
     (case r_markets of
        Inl err \<Rightarrow> ([EmitError (thrown_message err)], markets st)
      | Inr symbols \<Rightarrow>
     (case r_brackets of
        Inl err \<Rightarrow> ([EmitError (thrown_message err)], markets st)
      | Inr data \<Rightarrow>
        (let filteredSymbols = filter (\<lambda>sy. rs_symbol sy \<notin> set unwantedSymbols) symbols;
             wanted = filter (\<lambda>m. rs_contractType m = ''PERPETUAL'' \<and> rs_marginAsset m = ''USDT'')
                        filteredSymbols
         in if \<exists>m\<in>set wanted. map_of data (rs_symbol m) = None
            then ([EmitError EngineMessage], markets st)
            else ([], map (\<lambda>m.
                    \<lparr>m_id = rs_baseAsset m @ ''/'' @ rs_quoteAsset m @ '':'' @ rs_marginAsset m,
                     m_symbol = rs_symbol m,
                     m_base = rs_baseAsset m,
                     m_quote = rs_quoteAsset m,
                     m_active = (rs_status m = ''TRADING''),
                     precision_amount = rs_stepSize m,
                     precision_price = rs_tickSize m,
                     limits_amount_min = max (rs_lot_minQty m) (rs_mlot_minQty m),
                     limits_amount_max = min (rs_lot_maxQty m) (rs_mlot_maxQty m),
                     limits_minNotional = rs_notional m,
                     limits_leverage_min = 1,
                     limits_leverage_max = the (map_of data (rs_symbol m))\<rparr>) wanted))))"

definition fetchTickers ::
  "store \<Rightarrow> xhrError + rawDaily list \<Rightarrow> xhrError + rawBook list \<Rightarrow> xhrError + rawPrice list \<Rightarrow>
   emitted list \<times> ticker list" where
  "fetchTickers st r_dailys r_books r_prices =
     (case r_dailys of
        Inl err \<Rightarrow> ([EmitError (thrown_message err)], tickers st)
      | Inr dailys \<Rightarrow>
     (case r_books of
        Inl err \<Rightarrow> ([EmitError (thrown_message err)], tickers st)
      | Inr books \<Rightarrow>
     (case r_prices of
        Inl err \<Rightarrow> ([EmitError (thrown_message err)], tickers st)
      | Inr prices \<Rightarrow>
        ([], fold (\<lambda>book acc.
                case (find (\<lambda>m. m_symbol m = rb_symbol book) (markets st),
                      find (\<lambda>d. rd_symbol d = rb_symbol book) dailys,
                      find (\<lambda>p. rp_symbol p = rb_symbol book) prices) of
                  (Some mk, Some daily, Some pr) \<Rightarrow>
                    acc @ [\<lparr>t_id = m_id mk, t_symbol = m_symbol mk,
                             t_bid = rb_bidPrice book, t_ask = rb_askPrice book,
                             t_last = rd_lastPrice daily, t_mark = rp_markPrice pr,
                             t_index = rp_indexPrice pr, t_percentage = rd_priceChangePercent daily,
                             t_fundingRate = rp_lastFundingRate pr, t_volume = rd_volume daily,
                             t_quoteVolume = rd_quoteVolume daily, t_openInterest = 0\<rparr>]
                | _ \<Rightarrow> acc) books []))))"

text \<open>
  The loop over the assets of the account: the assets kept so far, or the symbol of
  the ticker whose absence raises.
\<close>

fun account_assets :: "store \<Rightarrow> (string \<times> rat) list \<Rightarrow> walletAsset list \<Rightarrow> string + walletAsset list" where
  "account_assets st [] acc = Inr acc"
| "account_assets st ((asset, walletBalance) # rest) acc =
     (if walletBalance > 0 then
        (if asset \<notin> set [''USDC'', ''USDT'', ''FDUSD''] then
           (case find (\<lambda>t. t_symbol t = asset @ ''USDT'') (tickers st) of
              None \<Rightarrow> Inl (asset @ ''USDT'')
            | Some tk \<Rightarrow>
                account_assets st rest
                  (acc @ [\<lparr>a_symbol = asset, a_walletBalance = walletBalance,
                            a_usdValue = t_last tk * walletBalance\<rparr>]))
         else account_assets st rest
                (acc @ [\<lparr>a_symbol = asset, a_walletBalance = walletBalance, a_usdValue = walletBalance\<rparr>]))
      else account_assets st rest acc)"

definition account_position :: "rawPosition \<Rightarrow> position" where
  "account_position p =
     (let entryPrice = rpos_entryPrice p;
          contracts = rpos_positionAmt p;
          upnl = rpos_unrealizedProfit p;
          pSide = rpos_positionSide p;
          side = (case POSITION_SIDE pSide of
                    Some sd \<Rightarrow> sd
                  | None \<Rightarrow> if contracts > 0 then Long else Short)
      in \<lparr>p_symbol = rpos_symbol p,
          p_side = side,
          p_entryPrice = entryPrice,
          p_notional = \<bar>contracts * entryPrice + upnl\<bar>,
          p_leverage = rpos_leverage p,
          p_unrealizedPnl = upnl,
          p_contracts = \<bar>contracts\<bar>,
          p_liquidationPrice = rpos_liquidationPrice p\<rparr>)"

definition fetchBalanceAndPositions ::
  "store \<Rightarrow> xhrError + rawAccount \<Rightarrow> emitted list \<times> position list \<times> balance" where
  "fetchBalanceAndPositions st r =
     (case r of
        Inl err \<Rightarrow> ([EmitError (thrown_message err)], positions st, s_balance st)
      | Inr data \<Rightarrow>
         (case account_assets st (ra_assets data) [] of
            Inl smb \<Rightarrow>
              ([EmitError (Msg [Str ''Ticker '', Str smb, Str '' not found''])], positions st, s_balance st)
          | Inr assets \<Rightarrow>
              (let bal = \<lparr>b_total = sum_list (map a_usdValue assets),
                          b_free = ra_availableBalance data,
                          b_used = ra_totalInitialMargin data,
                          b_upnl = ra_totalUnrealizedProfit data,
                          b_assets = assets\<rparr>;
                   supportedPositions =
                     filter (\<lambda>p. \<exists>m\<in>set (markets st). m_symbol m = rpos_symbol p) (ra_positions data)
               in ([], map account_position supportedPositions, bal))))"

definition fetchOrders :: "store \<Rightarrow> xhrError + rawOrder list \<Rightarrow> emitted list \<times> order list" where
  "fetchOrders st r =
     (case r of
        Inl err \<Rightarrow> ([EmitError (thrown_message err)], orders st)
      | Inr data \<Rightarrow>
          ([], map (\<lambda>x. \<lparr>o_id = ro_clientOrderId x, o_orderId = ro_orderId x, o_status = Open,
                           o_symbol = ro_symbol x, o_type = ro_type x, o_side = ORDER_SIDE (ro_side x),
                           o_price = (if ro_price x \<noteq> 0 then ro_price x else ro_stopPrice x),
                           o_amount = ro_origQty x, o_reduceOnly = ro_reduceOnly x,
                           o_filled = ro_executedQty x,
                           o_remaining = ro_origQty x - ro_executedQty x\<rparr>) data))"

text \<open>
  \<open>tick\<close>, for an adapter that is disposed or not at its start and after the request;
  the timer that calls it again is not modelled.
\<close>

definition tick :: "bool \<Rightarrow> bool \<Rightarrow> store \<Rightarrow> xhrError + rawAccount \<Rightarrow> emitted list \<times> store" where
  "tick disposed disposedAfter st r =
     (if disposed then ([], st)
      else (let (em, pos, bal) = fetchBalanceAndPositions st r
            in if disposedAfter then (em, st)
               else (em, st\<lparr>s_balance := bal, positions := pos,
                              s_loaded := (s_loaded st)\<lparr>l_balance := True, l_positions := True\<rparr>\<rparr>)))"

text \<open>
  The three loading steps of \<open>start\<close> that write what a fetch returned into the store,
  for an adapter that is not disposed.
\<close>

definition start_markets ::
  "store \<Rightarrow> xhrError + rawSymbol list \<Rightarrow> xhrError + (string \<times> rat) list \<Rightarrow> emitted list \<times> store" where
  "start_markets st r_markets r_brackets =
     (let (em, ms) = fetchMarkets st r_markets r_brackets
      in (em, st\<lparr>markets := ms, s_loaded := (s_loaded st)\<lparr>l_markets := True\<rparr>\<rparr>))"

definition start_tickers ::
  "store \<Rightarrow> xhrError + rawDaily list \<Rightarrow> xhrError + rawBook list \<Rightarrow> xhrError + rawPrice list \<Rightarrow>
   emitted list \<times> store" where
  "start_tickers st r_dailys r_books r_prices =
     (let (em, ts) = fetchTickers st r_dailys r_books r_prices
      in (em, st\<lparr>tickers := ts, s_loaded := (s_loaded st)\<lparr>l_tickers := True\<rparr>\<rparr>))"

definition start_orders :: "store \<Rightarrow> xhrError + rawOrder list \<Rightarrow> emitted list \<times> store" where
  "start_orders st r =
     (let (em, os) = fetchOrders st r
      in (em, st\<lparr>orders := os, s_loaded := (s_loaded st)\<lparr>l_orders := True\<rparr>\<rparr>))"

text \<open>
  \<open>setLeverage\<close>: what it throws, or the requests it posted (symbol and leverage),
  what it emitted and the store it leaves. \<open>r\<close> is the venue's answer to the request.
\<close>

definition setLeverage ::
  "store \<Rightarrow> string \<Rightarrow> rat \<Rightarrow> xhrError + unit \<Rightarrow> error + ((string \<times> rat) list \<times> emitted list \<times> store)" where
  "setLeverage st smb inputLeverage r =
     (case find (\<lambda>m. m_symbol m = smb) (markets st) of
        None \<Rightarrow> Inl (MarketNotFound smb)
      | Some mk \<Rightarrow>
     (case find (\<lambda>p. p_symbol p = smb) (positions st) of
        None \<Rightarrow> Inl (PositionNotFound smb)
      | Some pos \<Rightarrow>
        (let leverage = min (max inputLeverage (limits_leverage_min mk)) (limits_leverage_max mk)
         in if p_leverage pos \<noteq> leverage then
              (case r of
                 Inr _ \<Rightarrow> Inr ([(smb, leverage)], [],
                               updatePositions [(smb, Long, leverage), (smb, Short, leverage)] st)
               | Inl err \<Rightarrow> Inr ([(smb, leverage)], [EmitError (thrown_message err)], st))
            else Inr ([], [], st))))"

section \<open>Invariants of the dispatch queue\<close>

text \<open>
  A window of \<open>w\<close> milliseconds with cap \<open>c\<close> is in order at the last clock
  reading \<open>lastr\<close> when, seen from any later time, the window's list holds exactly
  the charges younger than \<open>w\<close>, no charge lies in the future, and no window of
  length \<open>w\<close> holds more than \<open>c\<close> charges.
\<close>

definition window_ok :: "int \<Rightarrow> nat \<Rightarrow> int \<Rightarrow> int list \<Rightarrow> int list \<Rightarrow> bool" where
  "window_ok w c lastr cs win \<longleftrightarrow>
     (\<forall>t\<ge>lastr. filter (\<lambda>ts. t - ts < w) cs = filter (\<lambda>ts. t - ts < w) win) \<and>
     (\<forall>ts\<in>set cs. ts \<le> lastr) \<and>
     (\<forall>t. length (filter (\<lambda>ts. t - w < ts \<and> ts \<le> t) cs) \<le> c)"

definition queue_ok :: "int \<Rightarrow> 'a orderQueueManager \<Rightarrow> bool" where
  "queue_ok lastr q \<longleftrightarrow>
     window_ok 10000 300 lastr (charges q) (orderTimestamps10s q) \<and>
     window_ok 60000 1200 lastr (charges q) (orderTimestamps60s q)"

section \<open>Examples\<close>

text \<open>A market with a step of 0.1 and at most 100 contracts an order, and two orders for it.\<close>

definition example_market :: market where
  "example_market =
     \<lparr>m_id = ''BTC/USDT:USDT'', m_symbol = ''BTCUSDT'', m_base = ''BTC'', m_quote = ''USDT'',
      m_active = True, precision_amount = 1 / 10, precision_price = 1 / 10,
      limits_amount_min = 1 / 10, limits_amount_max = 100, limits_minNotional = 5,
      limits_leverage_min = 1, limits_leverage_max = 125\<rparr>"

definition example_store :: "bool \<Rightarrow> store" where
  "example_store hedged =
     \<lparr>markets = [example_market], tickers = [], positions = [], orders = [],
      s_balance = \<lparr>b_total = 0, b_free = 0, b_used = 0, b_upnl = 0, b_assets = []\<rparr>,
      latency = 0,
      s_loaded = \<lparr>l_markets = True, l_tickers = False, l_balance = False, l_positions = False,
                  l_orders = False\<rparr>,
      isHedged = hedged\<rparr>"

definition buy_limit_with_stop :: placeOrderOpts where
  "buy_limit_with_stop =
     \<lparr>symbol = ''BTCUSDT'', type = Limit, side = Buy, price = Some 100, amount = 1,
      timeInForce = None, reduceOnly = None, stopLoss = Some 95, takeProfit = None\<rparr>"

definition buy_market_250 :: placeOrderOpts where
  "buy_market_250 =
     \<lparr>symbol = ''BTCUSDT'', type = Market, side = Buy, price = None, amount = 25035 / 100,
      timeInForce = None, reduceOnly = None, stopLoss = None, takeProfit = None\<rparr>"

definition primary_example :: payloadOrder where
  "primary_example =
     [(''symbol'', Str ''BTCUSDT''), (''positionSide'', Str ''LONG''), (''side'', Str ''BUY''),
      (''type'', TypeKey Limit), (''quantity'', Num 1), (''price'', Num 100),
      (''timeInForce'', TifKey GoodTillCancel), (''newClientOrderId'', Uuid 0)]"

definition stop_example :: payloadOrder where
  "stop_example =
     [(''symbol'', Str ''BTCUSDT''), (''positionSide'', Str ''LONG''), (''side'', Str ''SELL''),
      (''type'', TypeKey StopLoss), (''quantity'', Num 1), (''timeInForce'', Str ''GTC''),
      (''stopPrice'', Num 95), (''closePosition'', Str ''true''), (''newClientOrderId'', Uuid 1)]"

definition sell_reduce_only :: placeOrderOpts where
  "sell_reduce_only =
     \<lparr>symbol = ''BTCUSDT'', type = Market, side = Sell, price = None, amount = 1,
      timeInForce = None, reduceOnly = Some True, stopLoss = None, takeProfit = None\<rparr>"

definition reduce_example :: payloadOrder where
  "reduce_example =
     [(''symbol'', Str ''BTCUSDT''), (''positionSide'', Str ''LONG''), (''side'', Str ''SELL''),
      (''type'', TypeKey Market), (''quantity'', Num 1), (''newClientOrderId'', Uuid 0)]"

text \<open>A split order whose scale is too extreme, on a market with a ticker.\<close>

definition split_market :: market where
  "split_market =
     \<lparr>m_id = ''BTC/USDT:USDT'', m_symbol = ''BTCUSDT'', m_base = ''BTC'', m_quote = ''USDT'',
      m_active = True, precision_amount = 1 / 1000, precision_price = 1 / 10,
      limits_amount_min = 1 / 1000, limits_amount_max = 1000, limits_minNotional = 5,
      limits_leverage_min = 1, limits_leverage_max = 125\<rparr>"

definition split_ticker :: ticker where
  "split_ticker =
     \<lparr>t_id = ''BTC/USDT:USDT'', t_symbol = ''BTCUSDT'', t_bid = 100, t_ask = 100, t_last = 100,
      t_mark = 100, t_index = 100, t_percentage = 0, t_fundingRate = 0, t_volume = 0,
      t_quoteVolume = 0, t_openInterest = 0\<rparr>"

definition split_store :: store where
  "split_store =
     \<lparr>markets = [split_market], tickers = [split_ticker], positions = [], orders = [],
      s_balance = \<lparr>b_total = 0, b_free = 0, b_used = 0, b_upnl = 0, b_assets = []\<rparr>,
      latency = 0,
      s_loaded = \<lparr>l_markets = True, l_tickers = True, l_balance = False, l_positions = False,
                  l_orders = False\<rparr>,
      isHedged = False\<rparr>"

definition split_extreme :: "bool \<Rightarrow> splidOrderOpts" where
  "split_extreme auto =
     \<lparr>sp_symbol = ''BTCUSDT'', sp_side = Buy, sp_type = Limit, sp_amount = 12, sp_orders = 10,
      sp_fromPrice = 100, sp_toPrice = 110, sp_fromScale = 1, sp_toScale = 20,
      sp_autoReAdjust = auto\<rparr>"

text \<open>
  The queue manager after 240 lots of five, one every 170 milliseconds from time 0 on,
  with 300 payloads still queued.
\<close>

definition saturated_queue :: "nat orderQueueManager" where
  "saturated_queue =
     \<lparr>queue = replicate 300 0, processing = True,
      orderTimestamps10s = concat (map (\<lambda>j. replicate 5 (170 * int j)) [181..<240]),
      orderTimestamps60s = concat (map (\<lambda>j. replicate 5 (170 * int j)) [0..<240]),
      dispatched = map (\<lambda>j. (170 * int j, replicate 5 0)) [0..<240],
      q_emitted = []\<rparr>"

text \<open>A hedged account with a Short position, an update of it, a socket and a ping echo.\<close>

definition network_error :: xhrError where
  "network_error = \<lparr>response_data_msg = None, message = Some ''Network Error''\<rparr>"

definition short_position :: position where
  "short_position =
     \<lparr>p_symbol = ''BTCUSDT'', p_side = Short, p_entryPrice = 100, p_notional = 100, p_leverage = 10,
      p_unrealizedPnl = 0, p_contracts = 1, p_liquidationPrice = 150\<rparr>"

definition short_store :: store where
  "short_store =
     \<lparr>markets = [\<lparr>m_id = ''BTC/USDT:USDT'', m_symbol = ''BTCUSDT'', m_base = ''BTC'',
                   m_quote = ''USDT'', m_active = True, precision_amount = 1 / 10,
                   precision_price = 1 / 10, limits_amount_min = 1 / 10, limits_amount_max = 100,
                   limits_minNotional = 5, limits_leverage_min = 1, limits_leverage_max = 125\<rparr>],
      tickers = [], positions = [short_position], orders = [],
      s_balance = \<lparr>b_total = 0, b_free = 0, b_used = 0, b_upnl = 0, b_assets = []\<rparr>,
      latency = 0,
      s_loaded = \<lparr>l_markets = True, l_tickers = True, l_balance = True, l_positions = True,
                  l_orders = True\<rparr>,
      isHedged = True\<rparr>"

definition short_update :: json where
  "short_update =
     \<lparr>j_e = Some ''ACCOUNT_UPDATE'', j_id = None,
      j_a_P = [\<lparr>ps_s = ''BTCUSDT'', ps_ps = ''SHORT'', ps_ep = 100, ps_pa = - 2, ps_up = 0\<rparr>],
      j_a_B = [], j_o = None\<rparr>"

definition open_socket :: privateWebsocket where
  "open_socket =
     \<lparr>ws_isDisposed = False, pingAt = 1000, pingTimeoutId = Some 1, timeouts = [(1, 10000)],
      nextTimeoutId = 2, pings = 2\<rparr>"

definition ping_echo :: json where
  "ping_echo = \<lparr>j_e = None, j_id = Some 42, j_a_P = [], j_a_B = [], j_o = None\<rparr>"

section \<open>The rate windows\<close>

lemma window_ok_admit:
  assumes ok: "window_ok w c lastr cs win"
    and later: "lastr \<le> now"
    and room: "k + length (filter (\<lambda>ts. now - ts < w) win) \<le> c"
    and w: "0 < w"
  shows "window_ok w c now (cs @ replicate k now) (filter (\<lambda>ts. now - ts < w) win @ replicate k now)"
proof -
  from ok have eqw: "\<And>t. lastr \<le> t \<Longrightarrow> filter (\<lambda>ts. t - ts < w) cs = filter (\<lambda>ts. t - ts < w) win"
    and le: "\<And>ts. ts \<in> set cs \<Longrightarrow> ts \<le> lastr"
    and bound: "\<And>t. length (filter (\<lambda>ts. t - w < ts \<and> ts \<le> t) cs) \<le> c"
    by (auto simp: window_ok_def)
  have a: "filter (\<lambda>ts. t - ts < w) (cs @ replicate k now) =
           filter (\<lambda>ts. t - ts < w) (filter (\<lambda>ts. now - ts < w) win @ replicate k now)"
    if "now \<le> t" for t
  proof -
    have "filter (\<lambda>ts. t - ts < w) (filter (\<lambda>ts. now - ts < w) win) = filter (\<lambda>ts. t - ts < w) win"
      using that by (auto intro: filter_cong)
    with eqw [of t] that later show ?thesis by simp
  qed
  have b: "ts \<le> now" if "ts \<in> set (cs @ replicate k now)" for ts
  proof (cases "ts \<in> set cs")
    case True
    with le [of ts] later show ?thesis by simp
  next
    case False
    with that show ?thesis by (simp split: if_splits)
  qed
  have c: "length (filter (\<lambda>ts. t - w < ts \<and> ts \<le> t) (cs @ replicate k now)) \<le> c" for t
  proof (cases "now \<le> t")
    case False
    then have "filter (\<lambda>ts. t - w < ts \<and> ts \<le> t) (replicate k now) = []" by simp
    with bound [of t] show ?thesis by simp
  next
    case True
    have "filter (\<lambda>ts. t - w < ts \<and> ts \<le> t) cs = filter (\<lambda>ts. t - ts < w) cs"
    proof (intro filter_cong refl)
      fix ts assume "ts \<in> set cs"
      with le [of ts] later True have "ts \<le> t" by simp
      then show "(t - w < ts \<and> ts \<le> t) = (t - ts < w)" by auto
    qed
    also have "\<dots> = filter (\<lambda>ts. t - ts < w) (filter (\<lambda>ts. now - ts < w) win)"
      using a [OF True] by simp
    finally have "length (filter (\<lambda>ts. t - w < ts \<and> ts \<le> t) cs) \<le> length (filter (\<lambda>ts. now - ts < w) win)"
      using length_filter_le [of "\<lambda>ts. t - ts < w" "filter (\<lambda>ts. now - ts < w) win"] by simp
    moreover have "length (filter (\<lambda>ts. t - w < ts \<and> ts \<le> t) (replicate k now)) \<le> k"
      by (metis length_filter_le length_replicate)
    ultimately show ?thesis using room by simp
  qed
  show ?thesis unfolding window_ok_def using a b c by blast
qed

lemma window_ok_later: "window_ok w c lastr cs win \<Longrightarrow> lastr \<le> now \<Longrightarrow> window_ok w c now cs win"
  by (fastforce simp: window_ok_def)

lemma window_ok_pruned:
  assumes ok: "window_ok w c lastr cs win" and later: "lastr \<le> now"
  shows "length (filter (\<lambda>ts. now - ts < w) win) \<le> c"
proof -
  from ok later have "filter (\<lambda>ts. now - ts < w) win = filter (\<lambda>ts. now - ts < w) cs"
    by (simp add: window_ok_def)
  also have "\<dots> = filter (\<lambda>ts. now - w < ts \<and> ts \<le> now) cs"
  proof (intro filter_cong refl)
    fix ts assume "ts \<in> set cs"
    with ok have "ts \<le> lastr" by (simp add: window_ok_def)
    with later show "(now - ts < w) = (now - w < ts \<and> ts \<le> now)" by auto
  qed
  finally show ?thesis using ok by (simp add: window_ok_def)
qed

lemma pass_saturated:
  assumes "length (filter (\<lambda>ts. now - ts < 10000) (orderTimestamps10s q)) \<ge> 300 \<or>
           length (filter (\<lambda>ts. now - ts < 60000) (orderTimestamps60s q)) \<ge> 1200"
  shows "fst (processOrders_pass now q) =
           q\<lparr>orderTimestamps10s := filter (\<lambda>ts. now - ts < 10000) (orderTimestamps10s q),
             orderTimestamps60s := filter (\<lambda>ts. now - ts < 60000) (orderTimestamps60s q)\<rparr>"
  unfolding processOrders_pass_def Let_def using assms by (simp only: if_True fst_conv)

lemma pass_dispatched:
  assumes "\<not> (length (filter (\<lambda>ts. now - ts < 10000) (orderTimestamps10s q)) \<ge> 300 \<or>
           length (filter (\<lambda>ts. now - ts < 60000) (orderTimestamps60s q)) \<ge> 1200)"
  shows "fst (processOrders_pass now q) =
           (let ts10 = filter (\<lambda>ts. now - ts < 10000) (orderTimestamps10s q);
                ts60 = filter (\<lambda>ts. now - ts < 60000) (orderTimestamps60s q);
                k = min (300 - length ts10) (min (1200 - length ts60) (min (length (queue q)) 5))
            in q\<lparr>queue := drop k (queue q),
                 orderTimestamps10s := ts10 @ replicate (length (take k (queue q))) now,
                 orderTimestamps60s := ts60 @ replicate (length (take k (queue q))) now,
                 dispatched := dispatched q @ [(now, take k (queue q))],
                 q_emitted := q_emitted q @ [EmitOrderManager (length (drop k (queue q)))]\<rparr>)"
  unfolding processOrders_pass_def Let_def using assms by (simp only: if_False fst_conv)

lemma queue_ok_pass:
  assumes ok: "queue_ok lastr q" and later: "lastr \<le> now"
  shows "queue_ok now (fst (processOrders_pass now q))"
proof -
  let ?ts10 = "filter (\<lambda>ts. now - ts < 10000) (orderTimestamps10s q)"
  let ?ts60 = "filter (\<lambda>ts. now - ts < 60000) (orderTimestamps60s q)"
  let ?k = "min (300 - length ?ts10) (min (1200 - length ?ts60) (min (length (queue q)) 5))"
  from ok have ok10: "window_ok 10000 300 lastr (charges q) (orderTimestamps10s q)"
    and ok60: "window_ok 60000 1200 lastr (charges q) (orderTimestamps60s q)"
    by (auto simp: queue_ok_def)
  show ?thesis
  proof (cases "length ?ts10 \<ge> 300 \<or> length ?ts60 \<ge> 1200")
    case True
    have "0 + length ?ts10 \<le> 300"
      using window_ok_pruned [OF ok10 later] by simp
    from window_ok_admit [OF ok10 later this]
    have a: "window_ok 10000 300 now (charges q) ?ts10" by simp
    have "0 + length ?ts60 \<le> 1200"
      using window_ok_pruned [OF ok60 later] by simp
    from window_ok_admit [OF ok60 later this]
    have b: "window_ok 60000 1200 now (charges q) ?ts60" by simp
    show ?thesis
      unfolding pass_saturated [OF True] using a b by (simp add: queue_ok_def charges_def)
  next
    case False
    have len: "length (take ?k (queue q)) = ?k" by simp
    have "?k + length ?ts10 \<le> 300"
      using False by linarith
    from window_ok_admit [OF ok10 later this]
    have a: "window_ok 10000 300 now (charges q @ replicate ?k now) (?ts10 @ replicate ?k now)" by simp
    have "?k + length ?ts60 \<le> 1200"
      using False by linarith
    from window_ok_admit [OF ok60 later this]
    have b: "window_ok 60000 1200 now (charges q @ replicate ?k now) (?ts60 @ replicate ?k now)" by simp
    show ?thesis
      unfolding pass_dispatched [OF False] Let_def len using a b
      by (simp add: queue_ok_def charges_def)
  qed
qed

lemma queue_ok_later: "queue_ok lastr q \<Longrightarrow> lastr \<le> now \<Longrightarrow> queue_ok now q"
  by (auto simp: queue_ok_def intro: window_ok_later)

lemma queue_ok_enqueue: "queue_ok lastr q \<Longrightarrow> queue_ok lastr (enqueueOrders os q)"
  by (simp add: queue_ok_def enqueueOrders_def charges_def Let_def)

lemma queue_ok_run:
  "queue_ok lastr q \<Longrightarrow> sorted (lastr # readings evs) \<Longrightarrow> \<exists>lastr'. queue_ok lastr' (run evs q)"
proof (induction evs arbitrary: q lastr)
  case Nil
  then show ?case by (auto simp: run_def)
next
  case (Cons ev evs)
  show ?case
  proof (cases ev)
    case (Enqueue os)
    with Cons.prems have "queue_ok lastr (step ev q)" and "sorted (lastr # readings evs)"
      by (simp_all add: step_def queue_ok_enqueue)
    from Cons.IH [OF this] show ?thesis by (simp add: run_def)
  next
    case (Pass now)
    with Cons.prems have later: "lastr \<le> now" and srt: "sorted (now # readings evs)"
      by simp_all
    have "queue_ok now q"
      using Cons.prems(1) later by (rule queue_ok_later)
    then have "queue_ok now (q\<lparr>processing := False\<rparr>)"
      by (simp add: queue_ok_def charges_def)
    with \<open>queue_ok now q\<close> queue_ok_pass [OF Cons.prems(1) later] Pass
    have "queue_ok now (step ev q)"
      by (simp add: step_def)
    from Cons.IH [OF this srt] show ?thesis by (simp add: run_def)
  qed
qed

lemma queue_ok_new: "queue_ok lastr new_OrderQueueManager"
  by (simp add: queue_ok_def window_ok_def new_OrderQueueManager_def charges_def)

text \<open>
  C3. Whatever is enqueued and whenever the loop runs, as long as the clock does not
  run backwards: at every time \<open>t\<close> at most 300 dispatched payloads were charged in
  the 10 seconds that end at \<open>t\<close>, and at most 1200 in the 60 seconds that end at
  \<open>t\<close>.
\<close>

theorem rate_windows:
  assumes "sorted (readings evs)"
  shows "admitted_within (run evs new_OrderQueueManager) 10000 t \<le> 300 \<and>
         admitted_within (run evs new_OrderQueueManager) 60000 t \<le> 1200"
proof -
  have "\<exists>lastr. sorted (lastr # readings evs)"
  proof (cases "readings evs")
    case Nil
    then show ?thesis by simp
  next
    case (Cons r rs)
    with assms have "sorted (r # readings evs)" by simp
    then show ?thesis ..
  qed
  then obtain lastr where "sorted (lastr # readings evs)" ..
  from queue_ok_run [OF queue_ok_new this] obtain lastr' where
    "queue_ok lastr' (run evs (new_OrderQueueManager :: 'a orderQueueManager))" ..
  then show ?thesis by (simp add: queue_ok_def window_ok_def admitted_within_def)
qed


theorem rate_windows_witness:
  "sorted (readings [Enqueue [1, 2, 3, 4, 5, 6, 7 :: nat], Pass 0, Pass 170]) \<and>
   admitted_within (run [Enqueue [1, 2, 3, 4, 5, 6, 7 :: nat], Pass 0, Pass 170] new_OrderQueueManager) 10000 170 = 7 \<and>
   admitted_within (run [Enqueue [1, 2, 3, 4, 5, 6, 7 :: nat], Pass 0, Pass 170] new_OrderQueueManager) 10000 170 \<le> 300 \<and>
   admitted_within (run [Enqueue [1, 2, 3, 4, 5, 6, 7 :: nat], Pass 0, Pass 170] new_OrderQueueManager) 60000 170 \<le> 1200"
proof -
  have s: "sorted (readings [Enqueue [1, 2, 3, 4, 5, 6, 7 :: nat], Pass 0, Pass 170])"
    by simp
  have v: "admitted_within (run [Enqueue [1, 2, 3, 4, 5, 6, 7 :: nat], Pass 0, Pass 170] new_OrderQueueManager) 10000 170 = 7"
    by code_simp
  from s v rate_windows [OF s, of 170] show ?thesis by simp
qed

section \<open>The formatter of simple orders\<close>

lemma assign_ids_eq:
  "assign_ids ps n =
     (map2 (\<lambda>i p. AList.update ''newClientOrderId'' (Uuid i) p) [n..<n + length ps] ps, n + length ps)"
proof (induction ps arbitrary: n)
  case Nil
  show ?case by simp
next
  case (Cons p ps)
  have "[n..<n + length (p # ps)] = n # [Suc n..<Suc n + length ps]"
    by (simp add: upt_rec)
  with Cons show ?case by (simp add: uuid_def)
qed

lemma assign_ids_mem:
  assumes "q \<in> set (fst (assign_ids ps n))"
  shows "\<exists>p\<in>set ps. \<exists>i. q = AList.update ''newClientOrderId'' (Uuid i) p"
  using assms unfolding assign_ids_eq by (auto simp: set_zip)

lemma assign_ids_mem_conv:
  assumes "p \<in> set ps"
  shows "\<exists>i. AList.update ''newClientOrderId'' (Uuid i) p \<in> set (fst (assign_ids ps n))"
proof -
  from assms obtain j where j: "j < length ps" "ps ! j = p"
    by (auto simp: in_set_conv_nth)
  then have "AList.update ''newClientOrderId'' (Uuid (n + j)) p \<in> set (fst (assign_ids ps n))"
    unfolding assign_ids_eq by (force simp: set_zip)
  then show ?thesis ..
qed

lemma map_of_with_id:
  "k \<noteq> ''newClientOrderId'' \<Longrightarrow> map_of (AList.update ''newClientOrderId'' v p) k = map_of p k"
  by (simp add: update_conv')

lemma req_reduceOnly_hedged:
  "isHedged st \<Longrightarrow> map_of (formatCreateOrder_req st opts m) ''reduceOnly'' = None"
  by (simp add: formatCreateOrder_req_def omitUndefined_def List.map_filter_def Let_def)

lemma req_positionSide:
  "map_of (formatCreateOrder_req st opts m) ''positionSide'' =
     Some (Str (getOrderPositionSide st (side opts) (type opts) (reduceOnly opts)))"
  by (simp add: formatCreateOrder_req_def omitUndefined_def List.map_filter_def Let_def)

lemma req_type:
  "map_of (formatCreateOrder_req st opts m) ''type'' = Some (TypeKey (type opts))"
  by (simp add: formatCreateOrder_req_def omitUndefined_def List.map_filter_def Let_def)

lemma req_price_stop:
  "type opts = StopLoss \<or> type opts = TakeProfit \<Longrightarrow>
     map_of (formatCreateOrder_req st opts m) ''price'' = None \<and>
     map_of (formatCreateOrder_req st opts m) ''closePosition'' = Some (Str ''true'')"
  by (auto simp: formatCreateOrder_req_def omitUndefined_def List.map_filter_def Let_def)

lemma attached_fields:
  "map_of (attached req sd ty stop) ''side'' = Some (inverse_ORDER_SIDE (if sd = Buy then Sell else Buy))"
  "map_of (attached req sd ty stop) ''type'' = Some (TypeKey ty)"
  "map_of (attached req sd ty stop) ''stopPrice'' = Some (Num stop)"
  "map_of (attached req sd ty stop) ''closePosition'' = Some (Str ''true'')"
  "map_of (attached req sd ty stop) ''timeInForce'' = Some (Str ''GTC'')"
  "map_of (attached req sd ty stop) ''price'' = None"
  "map_of (attached req sd ty stop) ''reduceOnly'' = map_of req ''reduceOnly''"
  "map_of (attached req sd ty stop) ''positionSide'' = map_of req ''positionSide''"
  by (simp_all add: attached_def update_conv' delete_conv')

lemma payloads_cases:
  assumes "p \<in> set (formatCreateOrder_payloads st opts m)"
  shows "(\<exists>q. p = AList.update ''quantity'' (Num q) (formatCreateOrder_req st opts m)) \<or>
         (\<exists>ty stop. (ty = StopLoss \<or> ty = TakeProfit) \<and>
                     p = attached (formatCreateOrder_req st opts m) (side opts) ty stop)"
  using assms by (auto simp: formatCreateOrder_payloads_def Let_def split: if_splits)

lemma payloads_stopLoss:
  assumes "stopLoss opts = Some sl" "sl \<noteq> 0"
  shows "attached (formatCreateOrder_req st opts m) (side opts) StopLoss sl
           \<in> set (formatCreateOrder_payloads st opts m)"
  using assms by (simp add: formatCreateOrder_payloads_def Let_def truthy_def)

lemma payload_positionSide:
  assumes "p \<in> set (formatCreateOrder_payloads st opts m)"
  shows "map_of p ''positionSide'' =
           Some (Str (getOrderPositionSide st (side opts) (type opts) (reduceOnly opts)))"
  using payloads_cases [OF assms] by (auto simp: attached_fields req_positionSide update_conv')

lemma payload_reduceOnly_hedged:
  assumes "p \<in> set (formatCreateOrder_payloads st opts m)" "isHedged st"
  shows "map_of p ''reduceOnly'' = None"
  using payloads_cases [OF assms(1)] assms(2)
  by (auto simp: attached_fields req_reduceOnly_hedged update_conv')

lemma payload_stop_fields:
  assumes "p \<in> set (formatCreateOrder_payloads st opts m)"
    and "map_of p ''type'' = Some (TypeKey StopLoss) \<or> map_of p ''type'' = Some (TypeKey TakeProfit)"
  shows "map_of p ''price'' = None \<and> map_of p ''closePosition'' = Some (Str ''true'')"
  using payloads_cases [OF assms(1)] assms(2)
  by (auto simp: attached_fields req_type req_price_stop update_conv')

lemma trailing_fields:
  assumes "formatCreateTrailingStopLossOrder st opts n = Inr (ps, n')" "p \<in> set ps"
  shows "map_of p ''reduceOnly'' = None \<and>
         map_of p ''positionSide'' =
           Some (Str (getOrderPositionSide st (side opts) (type opts) (reduceOnly opts)))"
  using assms
  by (auto simp: formatCreateTrailingStopLossOrder_def Let_def uuid_def split: option.splits)

lemma formatted_payload:
  assumes "formatCreateOrder st opts n = Inr (ps, n')" "type opts \<noteq> TrailingStopLoss" "p \<in> set ps"
  shows "\<exists>m p0 i. find (\<lambda>m. m_symbol m = symbol opts) (markets st) = Some m \<and>
           p0 \<in> set (formatCreateOrder_payloads st opts m) \<and>
           p = AList.update ''newClientOrderId'' (Uuid i) p0"
proof -
  from assms(1,2) obtain m where m: "find (\<lambda>m. m_symbol m = symbol opts) (markets st) = Some m"
    and ps: "assign_ids (formatCreateOrder_payloads st opts m) n = (ps, n')"
    by (auto simp: formatCreateOrder_def split: option.splits)
  from ps assms(3) have "p \<in> set (fst (assign_ids (formatCreateOrder_payloads st opts m) n))"
    by simp
  from assign_ids_mem [OF this] m show ?thesis by blast
qed

lemma without_positionSide_update:
  "k \<noteq> ''positionSide'' \<Longrightarrow>
   without_positionSide (AList.update k v p) = (without_positionSide p)(k \<mapsto> v)"
  by (auto simp: without_positionSide_def update_conv')

lemma without_positionSide_delete:
  "k \<noteq> ''positionSide'' \<Longrightarrow>
   without_positionSide (AList.delete k p) = (without_positionSide p)(k := None)"
  by (auto simp: without_positionSide_def delete_conv')

lemma without_positionSide_attached:
  "without_positionSide (attached req sd ty stop) =
     (without_positionSide req)
       (''price'' := None,
        ''side'' \<mapsto> inverse_ORDER_SIDE (if sd = Buy then Sell else Buy),
        ''type'' \<mapsto> TypeKey ty, ''stopPrice'' \<mapsto> Num stop,
        ''timeInForce'' \<mapsto> Str ''GTC'', ''closePosition'' \<mapsto> Str ''true'')"
  by (simp add: attached_def without_positionSide_update without_positionSide_delete)

lemma req_reduceOnly_hedged_core:
  assumes "isHedged st"
  shows "without_positionSide (formatCreateOrder_req st (opts\<lparr>reduceOnly := ro\<rparr>) m) =
         without_positionSide (formatCreateOrder_req st opts m)"
  using assms
  by (auto simp: without_positionSide_def formatCreateOrder_req_def omitUndefined_def
      List.map_filter_def Let_def)

lemma payloads_reduceOnly_hedged_core:
  assumes "isHedged st"
  shows "map without_positionSide (formatCreateOrder_payloads st (opts\<lparr>reduceOnly := ro\<rparr>) m) =
         map without_positionSide (formatCreateOrder_payloads st opts m)"
  unfolding formatCreateOrder_payloads_def Let_def
  by (simp add: without_positionSide_update without_positionSide_attached
      req_reduceOnly_hedged_core [OF assms])

lemma assign_ids_core:
  assumes "map without_positionSide ps1 = map without_positionSide ps2"
  shows "map without_positionSide (fst (assign_ids ps1 n)) =
         map without_positionSide (fst (assign_ids ps2 n)) \<and>
         snd (assign_ids ps1 n) = snd (assign_ids ps2 n)"
  using assms
proof (induction ps1 arbitrary: ps2 n)
  case Nil
  then show ?case by simp
next
  case (Cons p ps1)
  then obtain q qs where ps2: "ps2 = q # qs" and pq: "without_positionSide p = without_positionSide q"
    and rest: "map without_positionSide ps1 = map without_positionSide qs"
    by (cases ps2) auto
  from Cons.IH [OF rest, of "Suc n"] pq show ?case
    unfolding ps2 by (simp add: uuid_def case_prod_beta without_positionSide_update)
qed

lemma trailing_reduceOnly:
  "formatCreateTrailingStopLossOrder st (opts\<lparr>reduceOnly := ro\<rparr>) n =
   formatCreateTrailingStopLossOrder st opts n" if "type opts = TrailingStopLoss"
  using that
  by (simp add: formatCreateTrailingStopLossOrder_def getOrderPositionSide_def Let_def
      cong: option.case_cong)

lemma formatCreateOrder_reduceOnly_core:
  assumes hedged: "isHedged st" and fmt: "formatCreateOrder st opts n = Inr (ps, n')"
  shows "\<exists>ps'. formatCreateOrder st (opts\<lparr>reduceOnly := ro\<rparr>) n = Inr (ps', n') \<and>
           map without_positionSide ps' = map without_positionSide ps"
proof (cases "type opts = TrailingStopLoss")
  case True
  with fmt trailing_reduceOnly [OF True, where st = st and ro = ro and n = n] show ?thesis
    by (simp add: formatCreateOrder_def)
next
  case False
  with fmt obtain m where m: "find (\<lambda>m. m_symbol m = symbol opts) (markets st) = Some m"
    and ps: "assign_ids (formatCreateOrder_payloads st opts m) n = (ps, n')"
    by (auto simp: formatCreateOrder_def split: option.splits)
  obtain ps' k where ps': "assign_ids (formatCreateOrder_payloads st (opts\<lparr>reduceOnly := ro\<rparr>) m) n = (ps', k)"
    by (cases "assign_ids (formatCreateOrder_payloads st (opts\<lparr>reduceOnly := ro\<rparr>) m) n")
  from assign_ids_core [OF payloads_reduceOnly_hedged_core [OF hedged, where opts = opts and ro = ro and m = m], where n = n] ps ps'
  have "map without_positionSide ps' = map without_positionSide ps" and "k = n'"
    by simp_all
  with False m ps' show ?thesis by (simp add: formatCreateOrder_def)
qed

text \<open>
  C9. On a hedged account no payload of a simple order has a \<open>reduceOnly\<close> field,
  whichever payload it is (a lot, the remainder lot, an attached stop-loss or
  take-profit, the trailing stop). Every payload carries the position side
  \<open>getOrderPositionSide\<close> answers: for a reduce-only order the side opposite to the
  order's side (\<open>SHORT\<close> for a Buy), for a Market or Limit order that is not
  reduce-only the order's own side. Whatever \<open>reduceOnly\<close> is set to, the payloads
  are the same but for their position side.
\<close>

theorem hedged_no_reduceOnly:
  assumes "isHedged st" and "formatCreateOrder st opts n = Inr (ps, n')" and "p \<in> set ps"
  shows "map_of p ''reduceOnly'' = None \<and>
         map_of p ''positionSide'' =
           Some (Str (getOrderPositionSide st (side opts) (type opts) (reduceOnly opts))) \<and>
         (reduceOnly opts = Some True \<longrightarrow>
            getOrderPositionSide st (side opts) (type opts) (reduceOnly opts) =
              (if side opts = Buy then ''SHORT'' else ''LONG'')) \<and>
         (reduceOnly opts \<noteq> Some True \<and> (type opts = Market \<or> type opts = Limit) \<longrightarrow>
            getOrderPositionSide st (side opts) (type opts) (reduceOnly opts) =
              (if side opts = Buy then ''LONG'' else ''SHORT'')) \<and>
         (\<forall>ro. \<exists>ps'. formatCreateOrder st (opts\<lparr>reduceOnly := ro\<rparr>) n = Inr (ps', n') \<and>
                      map without_positionSide ps' = map without_positionSide ps)"
proof -
  have fields: "map_of p ''reduceOnly'' = None \<and>
         map_of p ''positionSide'' =
           Some (Str (getOrderPositionSide st (side opts) (type opts) (reduceOnly opts)))"
  proof (cases "type opts = TrailingStopLoss")
    case True
    with assms(2) have "formatCreateTrailingStopLossOrder st opts n = Inr (ps, n')"
      by (simp add: formatCreateOrder_def)
    from trailing_fields [OF this assms(3)] show ?thesis .
  next
    case False
    from formatted_payload [OF assms(2) False assms(3)] obtain m p0 i where
      p0: "p0 \<in> set (formatCreateOrder_payloads st opts m)"
      and p: "p = AList.update ''newClientOrderId'' (Uuid i) p0"
      by blast
    from payload_reduceOnly_hedged [OF p0 assms(1)] payload_positionSide [OF p0] p
    show ?thesis by (simp add: map_of_with_id)
  qed
  moreover have "reduceOnly opts = Some True \<longrightarrow>
            getOrderPositionSide st (side opts) (type opts) (reduceOnly opts) =
              (if side opts = Buy then ''SHORT'' else ''LONG'')"
    using assms(1) by (simp add: getOrderPositionSide_def)
  moreover have "reduceOnly opts \<noteq> Some True \<and> (type opts = Market \<or> type opts = Limit) \<longrightarrow>
            getOrderPositionSide st (side opts) (type opts) (reduceOnly opts) =
              (if side opts = Buy then ''LONG'' else ''SHORT'')"
    using assms(1) by (auto simp: getOrderPositionSide_def)
  moreover have "\<forall>ro. \<exists>ps'. formatCreateOrder st (opts\<lparr>reduceOnly := ro\<rparr>) n = Inr (ps', n') \<and>
                      map without_positionSide ps' = map without_positionSide ps"
    using formatCreateOrder_reduceOnly_core [OF assms(1,2)] by blast
  ultimately show ?thesis by blast
qed

lemma buy_limit_with_stop_formatted:
  "formatCreateOrder (example_store True) buy_limit_with_stop 0 = Inr ([primary_example, stop_example], 2)"
  by code_simp

lemma sell_reduce_only_formatted:
  "formatCreateOrder (example_store True) sell_reduce_only 0 = Inr ([reduce_example], 1)"
  by code_simp

lemma sell_reduce_only_unhedged:
  "formatCreateOrder (example_store False) sell_reduce_only 0 =
     Inr ([[(''symbol'', Str ''BTCUSDT''), (''positionSide'', Str ''BOTH''), (''side'', Str ''SELL''),
            (''type'', TypeKey Market), (''quantity'', Num 1), (''reduceOnly'', Str ''true''),
            (''newClientOrderId'', Uuid 0)]], 1)"
  by code_simp

theorem hedged_no_reduceOnly_witness:
  "isHedged (example_store True) \<and>
   formatCreateOrder (example_store True) buy_limit_with_stop 0 = Inr ([primary_example, stop_example], 2) \<and>
   stop_example \<in> set [primary_example, stop_example] \<and>
   map_of stop_example ''reduceOnly'' = None \<and>
   map_of stop_example ''positionSide'' = Some (Str ''LONG'') \<and>
   reduceOnly sell_reduce_only = Some True \<and>
   formatCreateOrder (example_store True) sell_reduce_only 0 = Inr ([reduce_example], 1) \<and>
   reduce_example \<in> set [reduce_example] \<and>
   map_of reduce_example ''reduceOnly'' = None \<and>
   map_of reduce_example ''positionSide'' = Some (Str ''LONG'')"
proof -
  have h: "isHedged (example_store True)" by (simp add: example_store_def)
  have p: "stop_example \<in> set [primary_example, stop_example]" by simp
  have q: "reduce_example \<in> set [reduce_example]" by simp
  have r: "reduceOnly sell_reduce_only = Some True" and s: "side sell_reduce_only = Sell"
    by (simp_all add: sell_reduce_only_def)
  have b: "reduceOnly buy_limit_with_stop \<noteq> Some True \<and>
           (type buy_limit_with_stop = Market \<or> type buy_limit_with_stop = Limit)"
    and sb: "side buy_limit_with_stop = Buy"
    by (simp_all add: buy_limit_with_stop_def)
  from hedged_no_reduceOnly [OF h buy_limit_with_stop_formatted p] b sb
  have 1: "map_of stop_example ''reduceOnly'' = None \<and>
           map_of stop_example ''positionSide'' = Some (Str ''LONG'')"
    by simp
  from hedged_no_reduceOnly [OF h sell_reduce_only_formatted q] r s
  have 2: "map_of reduce_example ''reduceOnly'' = None \<and>
           map_of reduce_example ''positionSide'' = Some (Str ''LONG'')"
    by simp
  from 1 2 h p q r buy_limit_with_stop_formatted sell_reduce_only_formatted
  show ?thesis by blast
qed

text \<open>
  C1, as the code has it. On a hedged account a simple order with a stop-loss yields
  payloads that all carry the position side of the order itself and no \<open>reduceOnly\<close>;
  one of them is the stop-loss: the opposite order side, \<open>closePosition=true\<close>,
  \<open>stopPrice\<close> the stop-loss, no \<open>price\<close>. Stop-loss and take-profit payloads
  carry \<open>closePosition=true\<close> and no \<open>price\<close>. For a Buy Limit order that is not
  reduce-only the position side of every payload, the stop-loss included, is
  \<open>LONG\<close>, and the stop-loss's side is \<open>SELL\<close>.
\<close>

theorem attached_stop_loss:
  assumes hedged: "isHedged st"
    and ty: "type opts \<noteq> TrailingStopLoss"
    and mk: "find (\<lambda>m. m_symbol m = symbol opts) (markets st) = Some m"
    and sl: "stopLoss opts = Some sl" "sl \<noteq> 0"
  shows "\<exists>ps n'. formatCreateOrder st opts n = Inr (ps, n') \<and>
           (\<forall>p\<in>set ps.
              map_of p ''positionSide'' =
                Some (Str (getOrderPositionSide st (side opts) (type opts) (reduceOnly opts))) \<and>
              map_of p ''reduceOnly'' = None \<and>
              (map_of p ''type'' = Some (TypeKey StopLoss) \<or> map_of p ''type'' = Some (TypeKey TakeProfit)
                 \<longrightarrow> map_of p ''price'' = None \<and> map_of p ''closePosition'' = Some (Str ''true''))) \<and>
           (\<exists>p\<in>set ps.
              map_of p ''type'' = Some (TypeKey StopLoss) \<and>
              map_of p ''side'' = Some (inverse_ORDER_SIDE (if side opts = Buy then Sell else Buy)) \<and>
              map_of p ''stopPrice'' = Some (Num sl) \<and>
              map_of p ''closePosition'' = Some (Str ''true'') \<and>
              map_of p ''price'' = None) \<and>
           (side opts = Buy \<and> type opts = Limit \<and> reduceOnly opts \<noteq> Some True \<longrightarrow>
              getOrderPositionSide st (side opts) (type opts) (reduceOnly opts) = ''LONG'' \<and>
              inverse_ORDER_SIDE (if side opts = Buy then Sell else Buy) = Str ''SELL'')"
proof -
  let ?ps0 = "formatCreateOrder_payloads st opts m"
  obtain ps n' where ps: "assign_ids ?ps0 n = (ps, n')"
    by (cases "assign_ids ?ps0 n")
  with ty mk have fmt: "formatCreateOrder st opts n = Inr (ps, n')"
    by (simp add: formatCreateOrder_def)
  have all: "map_of p ''positionSide'' =
                Some (Str (getOrderPositionSide st (side opts) (type opts) (reduceOnly opts))) \<and>
              map_of p ''reduceOnly'' = None \<and>
              (map_of p ''type'' = Some (TypeKey StopLoss) \<or> map_of p ''type'' = Some (TypeKey TakeProfit)
                 \<longrightarrow> map_of p ''price'' = None \<and> map_of p ''closePosition'' = Some (Str ''true''))"
    if "p \<in> set ps" for p
  proof -
    from that ps have "p \<in> set (fst (assign_ids ?ps0 n))" by simp
    from assign_ids_mem [OF this] obtain p0 i where
      p0: "p0 \<in> set ?ps0" and p: "p = AList.update ''newClientOrderId'' (Uuid i) p0"
      by blast
    from payload_positionSide [OF p0] payload_reduceOnly_hedged [OF p0 hedged]
      payload_stop_fields [OF p0] p
    show ?thesis by (simp add: map_of_with_id)
  qed
  have ex: "\<exists>p\<in>set ps.
              map_of p ''type'' = Some (TypeKey StopLoss) \<and>
              map_of p ''side'' = Some (inverse_ORDER_SIDE (if side opts = Buy then Sell else Buy)) \<and>
              map_of p ''stopPrice'' = Some (Num sl) \<and>
              map_of p ''closePosition'' = Some (Str ''true'') \<and>
              map_of p ''price'' = None"
  proof -
    have "fst (assign_ids ?ps0 n) = ps" using ps by simp
    with assign_ids_mem_conv [OF payloads_stopLoss [OF sl], of st m n]
    obtain i where
      "AList.update ''newClientOrderId'' (Uuid i)
         (attached (formatCreateOrder_req st opts m) (side opts) StopLoss sl) \<in> set ps"
      by metis
    then show ?thesis
      by (rule rev_bexI) (simp add: map_of_with_id attached_fields)
  qed
  have part: "side opts = Buy \<and> type opts = Limit \<and> reduceOnly opts \<noteq> Some True \<longrightarrow>
              getOrderPositionSide st (side opts) (type opts) (reduceOnly opts) = ''LONG'' \<and>
              inverse_ORDER_SIDE (if side opts = Buy then Sell else Buy) = Str ''SELL''"
    using hedged by (auto simp: getOrderPositionSide_def inverse_ORDER_SIDE_def)
  show ?thesis
  proof (intro exI conjI)
    show "formatCreateOrder st opts n = Inr (ps, n')" by (rule fmt)
    show "\<forall>p\<in>set ps.
              map_of p ''positionSide'' =
                Some (Str (getOrderPositionSide st (side opts) (type opts) (reduceOnly opts))) \<and>
              map_of p ''reduceOnly'' = None \<and>
              (map_of p ''type'' = Some (TypeKey StopLoss) \<or> map_of p ''type'' = Some (TypeKey TakeProfit)
                 \<longrightarrow> map_of p ''price'' = None \<and> map_of p ''closePosition'' = Some (Str ''true''))"
      using all by blast
    show "\<exists>p\<in>set ps.
              map_of p ''type'' = Some (TypeKey StopLoss) \<and>
              map_of p ''side'' = Some (inverse_ORDER_SIDE (if side opts = Buy then Sell else Buy)) \<and>
              map_of p ''stopPrice'' = Some (Num sl) \<and>
              map_of p ''closePosition'' = Some (Str ''true'') \<and>
              map_of p ''price'' = None"
      by (rule ex)
    show "side opts = Buy \<and> type opts = Limit \<and> reduceOnly opts \<noteq> Some True \<longrightarrow>
              getOrderPositionSide st (side opts) (type opts) (reduceOnly opts) = ''LONG'' \<and>
              inverse_ORDER_SIDE (if side opts = Buy then Sell else Buy) = Str ''SELL''"
      by (rule part)
  qed
qed

theorem attached_stop_loss_witness:
  "isHedged (example_store True) \<and> type buy_limit_with_stop \<noteq> TrailingStopLoss \<and>
   find (\<lambda>m. m_symbol m = symbol buy_limit_with_stop) (markets (example_store True)) = Some example_market \<and>
   stopLoss buy_limit_with_stop = Some 95 \<and> (95 :: rat) \<noteq> 0 \<and>
   (\<exists>ps n'. formatCreateOrder (example_store True) buy_limit_with_stop 0 = Inr (ps, n') \<and>
      (\<forall>p\<in>set ps. map_of p ''positionSide'' = Some (Str ''LONG'') \<and> map_of p ''reduceOnly'' = None) \<and>
      (\<exists>p\<in>set ps. map_of p ''type'' = Some (TypeKey StopLoss) \<and> map_of p ''side'' = Some (Str ''SELL'') \<and>
         map_of p ''stopPrice'' = Some (Num 95) \<and> map_of p ''closePosition'' = Some (Str ''true'') \<and>
         map_of p ''price'' = None))"
proof -
  have h: "isHedged (example_store True)" by (simp add: example_store_def)
  have t: "type buy_limit_with_stop \<noteq> TrailingStopLoss" by (simp add: buy_limit_with_stop_def)
  have m: "find (\<lambda>m. m_symbol m = symbol buy_limit_with_stop) (markets (example_store True)) =
             Some example_market"
    by (simp add: example_store_def example_market_def buy_limit_with_stop_def)
  have s: "stopLoss buy_limit_with_stop = Some 95" by (simp add: buy_limit_with_stop_def)
  have z: "(95 :: rat) \<noteq> 0" by simp
  have b: "side buy_limit_with_stop = Buy \<and> type buy_limit_with_stop = Limit \<and>
           reduceOnly buy_limit_with_stop \<noteq> Some True"
    by (simp add: buy_limit_with_stop_def)
  from attached_stop_loss [OF h t m s z, of 0] obtain ps n' where
    f: "formatCreateOrder (example_store True) buy_limit_with_stop 0 = Inr (ps, n')"
    and a: "\<forall>p\<in>set ps.
              map_of p ''positionSide'' =
                Some (Str (getOrderPositionSide (example_store True) (side buy_limit_with_stop)
                             (type buy_limit_with_stop) (reduceOnly buy_limit_with_stop))) \<and>
              map_of p ''reduceOnly'' = None \<and>
              (map_of p ''type'' = Some (TypeKey StopLoss) \<or> map_of p ''type'' = Some (TypeKey TakeProfit)
                 \<longrightarrow> map_of p ''price'' = None \<and> map_of p ''closePosition'' = Some (Str ''true''))"
    and e: "\<exists>p\<in>set ps.
              map_of p ''type'' = Some (TypeKey StopLoss) \<and>
              map_of p ''side'' =
                Some (inverse_ORDER_SIDE (if side buy_limit_with_stop = Buy then Sell else Buy)) \<and>
              map_of p ''stopPrice'' = Some (Num 95) \<and>
              map_of p ''closePosition'' = Some (Str ''true'') \<and>
              map_of p ''price'' = None"
    and l: "side buy_limit_with_stop = Buy \<and> type buy_limit_with_stop = Limit \<and>
            reduceOnly buy_limit_with_stop \<noteq> Some True \<longrightarrow>
              getOrderPositionSide (example_store True) (side buy_limit_with_stop)
                (type buy_limit_with_stop) (reduceOnly buy_limit_with_stop) = ''LONG'' \<and>
              inverse_ORDER_SIDE (if side buy_limit_with_stop = Buy then Sell else Buy) = Str ''SELL''"
    by blast
  from l b have g: "getOrderPositionSide (example_store True) (side buy_limit_with_stop)
                (type buy_limit_with_stop) (reduceOnly buy_limit_with_stop) = ''LONG''"
    and i: "inverse_ORDER_SIDE (if side buy_limit_with_stop = Buy then Sell else Buy) = Str ''SELL''"
    by blast+
  from a have a': "\<forall>p\<in>set ps. map_of p ''positionSide'' = Some (Str ''LONG'') \<and>
                                 map_of p ''reduceOnly'' = None"
    unfolding g by blast
  from e have e': "\<exists>p\<in>set ps. map_of p ''type'' = Some (TypeKey StopLoss) \<and>
         map_of p ''side'' = Some (Str ''SELL'') \<and>
         map_of p ''stopPrice'' = Some (Num 95) \<and> map_of p ''closePosition'' = Some (Str ''true'') \<and>
         map_of p ''price'' = None"
    unfolding i .
  from f a' e' have "\<exists>ps n'. formatCreateOrder (example_store True) buy_limit_with_stop 0 = Inr (ps, n') \<and>
      (\<forall>p\<in>set ps. map_of p ''positionSide'' = Some (Str ''LONG'') \<and> map_of p ''reduceOnly'' = None) \<and>
      (\<exists>p\<in>set ps. map_of p ''type'' = Some (TypeKey StopLoss) \<and> map_of p ''side'' = Some (Str ''SELL'') \<and>
         map_of p ''stopPrice'' = Some (Num 95) \<and> map_of p ''closePosition'' = Some (Str ''true'') \<and>
         map_of p ''price'' = None)"
    by blast
  with h t m s z show ?thesis by blast
qed

text \<open>
  C1 as stated fails: for the Buy Limit order with \<open>stopLoss=95\<close> on a hedged account
  no payload has \<open>side=SELL\<close> together with \<open>positionSide=SHORT\<close>.
\<close>

theorem attached_stop_loss_counterexample:
  "\<not> (\<exists>ps n'. formatCreateOrder (example_store True) buy_limit_with_stop 0 = Inr (ps, n') \<and>
        (\<exists>p\<in>set ps. map_of p ''side'' = Some (Str ''SELL'') \<and>
                      map_of p ''positionSide'' = Some (Str ''SHORT'') \<and>
                      map_of p ''closePosition'' = Some (Str ''true'') \<and>
                      map_of p ''stopPrice'' = Some (Num 95)))"
  by (simp add: buy_limit_with_stop_formatted primary_example_def stop_example_def)

lemma lot_arith:
  "adjust (25035 / 100) (1 / 10) = 2503 / 10"
  "Math_ceil ((2503 / 10) / 100) = 3"
  "adjust (js_rem (2503 / 10) 100) (1 / 10) = 503 / 10"
  "adjust ((2503 / 10 - 503 / 10) / of_int 3) (1 / 10) = 333 / 5"
  "(2503 / 10 :: rat) > 100" "(503 / 10 :: rat) \<noteq> 0"
  by code_simp+

text \<open>
  C4, as the code has it. With \<open>limits.amount.max = 100\<close> and a step of \<open>0.1\<close>, a
  Buy of 250.35 contracts without attachments yields four payloads: three lots of 66.6
  and a remainder lot of 50.3, each the same request \<open>req\<close> with its quantity and
  its own client identifier.
\<close>

theorem lot_splitting:
  assumes mk: "find (\<lambda>m. m_symbol m = symbol opts) (markets st) = Some m"
    and lim: "limits_amount_max m = 100" and prec: "precision_amount m = 1 / 10"
    and opts: "type opts \<noteq> TrailingStopLoss" "side opts = Buy" "amount opts = 25035 / 100"
              "\<not> truthy (stopLoss opts)" "\<not> truthy (takeProfit opts)"
  shows "formatCreateOrder st opts n =
     Inr ([AList.update ''newClientOrderId'' (Uuid n)
             (AList.update ''quantity'' (Num (333 / 5)) (formatCreateOrder_req st opts m)),
           AList.update ''newClientOrderId'' (Uuid (n + 1))
             (AList.update ''quantity'' (Num (333 / 5)) (formatCreateOrder_req st opts m)),
           AList.update ''newClientOrderId'' (Uuid (n + 2))
             (AList.update ''quantity'' (Num (333 / 5)) (formatCreateOrder_req st opts m)),
           AList.update ''newClientOrderId'' (Uuid (n + 3))
             (AList.update ''quantity'' (Num (503 / 10)) (formatCreateOrder_req st opts m))],
          n + 4)"
proof -
  have "formatCreateOrder_payloads st opts m =
          [AList.update ''quantity'' (Num (333 / 5)) (formatCreateOrder_req st opts m),
           AList.update ''quantity'' (Num (333 / 5)) (formatCreateOrder_req st opts m),
           AList.update ''quantity'' (Num (333 / 5)) (formatCreateOrder_req st opts m),
           AList.update ''quantity'' (Num (503 / 10)) (formatCreateOrder_req st opts m)]"
    unfolding formatCreateOrder_payloads_def Let_def lim prec opts(3) lot_arith
    using opts(4,5) by (simp only: if_True if_False lot_arith) (simp add: numeral_3_eq_3)
  then show ?thesis
    using mk opts(1) by (simp add: formatCreateOrder_def uuid_def eval_nat_numeral)
qed

lemma buy_market_250_formatted:
  "formatCreateOrder (example_store False) buy_market_250 0 =
     Inr ([[(''symbol'', Str ''BTCUSDT''), (''positionSide'', Str ''BOTH''), (''side'', Str ''BUY''),
            (''type'', TypeKey Market), (''quantity'', Num (333 / 5)), (''newClientOrderId'', Uuid 0)],
           [(''symbol'', Str ''BTCUSDT''), (''positionSide'', Str ''BOTH''), (''side'', Str ''BUY''),
            (''type'', TypeKey Market), (''quantity'', Num (333 / 5)), (''newClientOrderId'', Uuid 1)],
           [(''symbol'', Str ''BTCUSDT''), (''positionSide'', Str ''BOTH''), (''side'', Str ''BUY''),
            (''type'', TypeKey Market), (''quantity'', Num (333 / 5)), (''newClientOrderId'', Uuid 2)],
           [(''symbol'', Str ''BTCUSDT''), (''positionSide'', Str ''BOTH''), (''side'', Str ''BUY''),
            (''type'', TypeKey Market), (''quantity'', Num (503 / 10)), (''newClientOrderId'', Uuid 3)]],
          4)"
  by code_simp

text \<open>
  C4 as stated fails: the quantities are not three times 83.4 and once 0.15.
\<close>

theorem lot_splitting_counterexample:
  "\<not> (\<exists>ps n'. formatCreateOrder (example_store False) buy_market_250 0 = Inr (ps, n') \<and>
        map (\<lambda>p. map_of p ''quantity'') ps =
          [Some (Num (834 / 10)), Some (Num (834 / 10)), Some (Num (834 / 10)), Some (Num (15 / 100))])"
  by (simp add: buy_market_250_formatted)

theorem lot_splitting_witness:
  "find (\<lambda>m. m_symbol m = symbol buy_market_250) (markets (example_store False)) = Some example_market \<and>
   limits_amount_max example_market = 100 \<and> precision_amount example_market = 1 / 10 \<and>
   type buy_market_250 \<noteq> TrailingStopLoss \<and> side buy_market_250 = Buy \<and>
   amount buy_market_250 = 25035 / 100 \<and>
   \<not> truthy (stopLoss buy_market_250) \<and> \<not> truthy (takeProfit buy_market_250) \<and>
   (\<exists>req. formatCreateOrder (example_store False) buy_market_250 0 =
     Inr ([AList.update ''newClientOrderId'' (Uuid 0) (AList.update ''quantity'' (Num (333 / 5)) req),
           AList.update ''newClientOrderId'' (Uuid (0 + 1)) (AList.update ''quantity'' (Num (333 / 5)) req),
           AList.update ''newClientOrderId'' (Uuid (0 + 2)) (AList.update ''quantity'' (Num (333 / 5)) req),
           AList.update ''newClientOrderId'' (Uuid (0 + 3)) (AList.update ''quantity'' (Num (503 / 10)) req)],
          0 + 4))"
proof -
  have m: "find (\<lambda>m. m_symbol m = symbol buy_market_250) (markets (example_store False)) =
             Some example_market"
    by (simp add: example_store_def example_market_def buy_market_250_def)
  have l: "limits_amount_max example_market = 100" and p: "precision_amount example_market = 1 / 10"
    by (simp_all add: example_market_def)
  have o: "type buy_market_250 \<noteq> TrailingStopLoss" "side buy_market_250 = Buy"
    "amount buy_market_250 = 25035 / 100"
    "\<not> truthy (stopLoss buy_market_250)" "\<not> truthy (takeProfit buy_market_250)"
    by (simp_all add: buy_market_250_def truthy_def)
  from lot_splitting [OF m l p o, of 0] m l p o show ?thesis by blast
qed

section \<open>The formatter of split orders\<close>

lemma calcValidOrdersCount_small:
  assumes "\<forall>k. 3 \<le> k \<and> k \<le> n \<longrightarrow> infeasible fromScale toScale quantity minSize minNotional fromPrice k"
  shows "calcValidOrdersCount fromScale toScale quantity minSize minNotional fromPrice n < 3"
  using assms
proof (induction n)
  case 0
  show ?case by simp
next
  case (Suc n)
  show ?case
  proof (cases "infeasible fromScale toScale quantity minSize minNotional fromPrice (Suc n)")
    case True
    with Suc show ?thesis by simp
  next
    case False
    with Suc.prems have "\<not> 3 \<le> Suc n" by blast
    with False show ?thesis by simp
  qed
qed

lemma calcValidOrdersCount_le:
  "calcValidOrdersCount fromScale toScale quantity minSize minNotional fromPrice n \<le> n"
  by (induction n) auto

lemma calcValidOrdersCount_feasible:
  "calcValidOrdersCount fromScale toScale quantity minSize minNotional fromPrice n = Suc k \<Longrightarrow>
   \<not> infeasible fromScale toScale quantity minSize minNotional fromPrice (Suc k)"
  by (induction n) (auto split: if_splits)

lemma formatCreateSplitOrders_infeasible:
  assumes mk: "find (\<lambda>m. m_symbol m = sp_symbol opts) (markets st) = Some m"
    and tk: "find (\<lambda>t. t_symbol t = sp_symbol opts) (tickers st) = Some t"
    and inf: "infeasible (sp_fromScale opts) (sp_toScale opts)
                (sp_amount opts / ((sp_fromPrice opts + sp_toPrice opts) / 2))
                (limits_amount_min m) (limits_minNotional m) (sp_fromPrice opts) (sp_orders opts)"
  shows "formatCreateSplitOrders st opts n =
     (let infos = [EmitInfo [Str ''Splitting '', Num (sp_amount opts), Str '' into '',
                                Num (of_nat (sp_orders opts))],
                   EmitInfo [Str ''Quantity: '',
                             Num (sp_amount opts / ((sp_fromPrice opts + sp_toPrice opts) / 2))]]
      in if sp_autoReAdjust opts then
           (if calcValidOrdersCount (sp_fromScale opts) (sp_toScale opts)
                 (sp_amount opts / ((sp_fromPrice opts + sp_toPrice opts) / 2))
                 (limits_amount_min m) (limits_minNotional m) (sp_fromPrice opts) (sp_orders opts) < 3
            then Inr (infos @ [EmitError (Msg [Str ''Bruh either u poor or retardio cannot split''])], [], n)
            else formatCreateSplitOrders st opts n)
         else Inr (infos @ [EmitError (Msg [Str ''Scale too extreme to split orders - no adjustments made''])],
                   [], n))"
proof -
  from inf have c: "(sp_fromScale opts /
            calculateWeights (sp_fromScale opts) (sp_toScale opts) (sp_orders opts)) *
           (sp_amount opts / ((sp_fromPrice opts + sp_toPrice opts) / 2)) < limits_amount_min m \<or>
          (sp_fromScale opts /
            calculateWeights (sp_fromScale opts) (sp_toScale opts) (sp_orders opts)) *
           (sp_amount opts / ((sp_fromPrice opts + sp_toPrice opts) / 2)) * sp_fromPrice opts
            < limits_minNotional m"
    unfolding infeasible_def Let_def .
  show ?thesis
  proof (cases "sp_autoReAdjust opts")
    case False
    show ?thesis
      unfolding formatCreateSplitOrders_def [of st opts n] Let_def case_prod_beta
      by (simp only: mk tk c False option.case if_True if_False)
  next
    case True
    show ?thesis
    proof (cases "calcValidOrdersCount (sp_fromScale opts) (sp_toScale opts)
                 (sp_amount opts / ((sp_fromPrice opts + sp_toPrice opts) / 2))
                 (limits_amount_min m) (limits_minNotional m) (sp_fromPrice opts) (sp_orders opts) < 3")
      case small: True
      show ?thesis
        unfolding formatCreateSplitOrders_def [of st opts n] Let_def case_prod_beta
        by (simp only: mk tk c True small option.case if_True if_False)
    next
      case False
      with True show ?thesis by (simp only: Let_def if_True if_False)
    qed
  qed
qed

text \<open>
  C6. When the smallest slice of a split order is infeasible: without
  \<open>autoReAdjust\<close> the formatter emits the error "Scale too extreme to split orders -
  no adjustments made" and returns no payload; with \<open>autoReAdjust\<close>, when no count
  of orders from 3 up to the requested one is feasible, it emits the error that ends
  in "cannot split" and returns no payload. No client identifier is drawn.
\<close>

theorem split_infeasible:
  assumes mk: "find (\<lambda>m. m_symbol m = sp_symbol opts) (markets st) = Some m"
    and tk: "find (\<lambda>t. t_symbol t = sp_symbol opts) (tickers st) = Some t"
    and inf: "infeasible (sp_fromScale opts) (sp_toScale opts)
                (sp_amount opts / ((sp_fromPrice opts + sp_toPrice opts) / 2))
                (limits_amount_min m) (limits_minNotional m) (sp_fromPrice opts) (sp_orders opts)"
  shows "(\<not> sp_autoReAdjust opts \<longrightarrow>
            (\<exists>infos. formatCreateSplitOrders st opts n =
               Inr (infos @ [EmitError (Msg [Str ''Scale too extreme to split orders - no adjustments made''])],
                    [], n))) \<and>
         (sp_autoReAdjust opts \<and>
          (\<forall>k. 3 \<le> k \<and> k \<le> sp_orders opts \<longrightarrow>
             infeasible (sp_fromScale opts) (sp_toScale opts)
               (sp_amount opts / ((sp_fromPrice opts + sp_toPrice opts) / 2))
               (limits_amount_min m) (limits_minNotional m) (sp_fromPrice opts) k) \<longrightarrow>
            (\<exists>infos. formatCreateSplitOrders st opts n =
               Inr (infos @ [EmitError (Msg [Str ''Bruh either u poor or retardio cannot split''])],
                    [], n)))"
proof (intro conjI impI)
  assume "\<not> sp_autoReAdjust opts"
  with formatCreateSplitOrders_infeasible [OF mk tk inf, of n]
  show "\<exists>infos. formatCreateSplitOrders st opts n =
               Inr (infos @ [EmitError (Msg [Str ''Scale too extreme to split orders - no adjustments made''])],
                    [], n)"
    by (simp only: Let_def if_False) blast
next
  assume a: "sp_autoReAdjust opts \<and>
          (\<forall>k. 3 \<le> k \<and> k \<le> sp_orders opts \<longrightarrow>
             infeasible (sp_fromScale opts) (sp_toScale opts)
               (sp_amount opts / ((sp_fromPrice opts + sp_toPrice opts) / 2))
               (limits_amount_min m) (limits_minNotional m) (sp_fromPrice opts) k)"
  then have "calcValidOrdersCount (sp_fromScale opts) (sp_toScale opts)
               (sp_amount opts / ((sp_fromPrice opts + sp_toPrice opts) / 2))
               (limits_amount_min m) (limits_minNotional m) (sp_fromPrice opts) (sp_orders opts) < 3"
    by (intro calcValidOrdersCount_small) blast
  with a formatCreateSplitOrders_infeasible [OF mk tk inf, of n]
  show "\<exists>infos. formatCreateSplitOrders st opts n =
               Inr (infos @ [EmitError (Msg [Str ''Bruh either u poor or retardio cannot split''])],
                    [], n)"
    by (simp only: Let_def if_True) blast
qed

lemma split_extreme_infeasible:
  "list_all (infeasible 1 20 (12 / ((100 + 110) / 2)) (1 / 1000) 5 100) [3..<11]"
  by code_simp

theorem split_infeasible_witness:
  "(\<exists>infos. formatCreateSplitOrders split_store (split_extreme False) 0 =
      Inr (infos @ [EmitError (Msg [Str ''Scale too extreme to split orders - no adjustments made''])],
           [], 0)) \<and>
   (\<exists>infos. formatCreateSplitOrders split_store (split_extreme True) 0 =
      Inr (infos @ [EmitError (Msg [Str ''Bruh either u poor or retardio cannot split''])], [], 0))"
proof -
  have mk: "find (\<lambda>m. m_symbol m = sp_symbol (split_extreme a)) (markets split_store) = Some split_market"
    for a by (simp add: split_extreme_def split_store_def split_market_def)
  have tk: "find (\<lambda>t. t_symbol t = sp_symbol (split_extreme a)) (tickers split_store) = Some split_ticker"
    for a by (simp add: split_extreme_def split_store_def split_ticker_def)
  have all: "infeasible 1 20 (12 / ((100 + 110) / 2)) (1 / 1000) 5 100 k" if "3 \<le> k \<and> k \<le> 10" for k
  proof -
    from that have "k \<in> set [3..<11]" unfolding set_upt by auto
    with split_extreme_infeasible show ?thesis unfolding list_all_iff by blast
  qed
  have inf: "infeasible (sp_fromScale (split_extreme a)) (sp_toScale (split_extreme a))
                (sp_amount (split_extreme a) /
                   ((sp_fromPrice (split_extreme a) + sp_toPrice (split_extreme a)) / 2))
                (limits_amount_min split_market) (limits_minNotional split_market)
                (sp_fromPrice (split_extreme a)) k" if "3 \<le> k \<and> k \<le> 10" for a k
    using all [OF that] by (simp only: split_extreme_def split_market_def splidOrderOpts.simps market.simps)
  have top: "infeasible (sp_fromScale (split_extreme a)) (sp_toScale (split_extreme a))
                (sp_amount (split_extreme a) /
                   ((sp_fromPrice (split_extreme a) + sp_toPrice (split_extreme a)) / 2))
                (limits_amount_min split_market) (limits_minNotional split_market)
                (sp_fromPrice (split_extreme a)) (sp_orders (split_extreme a))" for a
    using inf [of 10 a] by (simp add: split_extreme_def del: of_nat_numeral)
  have f: "\<not> sp_autoReAdjust (split_extreme False)" and t: "sp_autoReAdjust (split_extreme True)"
    and o: "sp_orders (split_extreme True) = 10"
    by (simp_all add: split_extreme_def)
  from split_infeasible [OF mk tk top, of False 0] f
  have a: "\<exists>infos. formatCreateSplitOrders split_store (split_extreme False) 0 =
      Inr (infos @ [EmitError (Msg [Str ''Scale too extreme to split orders - no adjustments made''])],
           [], 0)"
    by blast
  from split_infeasible [OF mk tk top, of True 0] t inf [of _ True] o
  have b: "\<exists>infos. formatCreateSplitOrders split_store (split_extreme True) 0 =
      Inr (infos @ [EmitError (Msg [Str ''Bruh either u poor or retardio cannot split''])], [], 0)"
    by simp
  from a b show ?thesis by blast
qed

section \<open>The saturated window\<close>

text \<open>
  A pass that finds a window saturated dispatches nothing and leaves the queue as it
  is: this much of C5 holds.
\<close>

lemma saturated_dispatches_nothing:
  assumes "length (filter (\<lambda>ts. now - ts < 10000) (orderTimestamps10s q)) \<ge> 300 \<or>
           length (filter (\<lambda>ts. now - ts < 60000) (orderTimestamps60s q)) \<ge> 1200"
  shows "dispatched (fst (processOrders_pass now q)) = dispatched q \<and>
         queue (fst (processOrders_pass now q)) = queue q"
  unfolding pass_saturated [OF assms] by simp

text \<open>
  The sleep the saturated pass asks for, when both windows have entries left: the time
  since the older of their two oldest entries, plus one millisecond.
\<close>

lemma pass_saturated_sleep:
  assumes "filter (\<lambda>t. now - t < 10000) (orderTimestamps10s q) = a # as"
    and "filter (\<lambda>t. now - t < 60000) (orderTimestamps60s q) = b # bs"
    and "300 \<le> length (a # as) \<or> 1200 \<le> length (b # bs)"
  shows "snd (processOrders_pass now q) = Saturated (Some (of_int (now - min a b + 1)))"
  unfolding processOrders_pass_def Let_def assms(1,2) using assms(3)
  by (simp only: if_True snd_conv prod.case list.case)

lemma lots_young:
  assumes "\<forall>j\<in>set js. now - 170 * int j < w"
  shows "filter (\<lambda>t. now - t < w) (concat (map (\<lambda>j. replicate 5 (170 * int j)) js)) =
         concat (map (\<lambda>j. replicate 5 (170 * int j)) js)"
  using assms by (induction js) auto

lemma lots_length: "length (concat (map (\<lambda>j. replicate 5 (170 * int j)) js)) = 5 * length js"
  by (induction js) auto

lemma lot_head: "replicate 5 x = x # replicate 4 x"
  by (simp add: eval_nat_numeral)

lemma saturated_lots:
  assumes q10: "orderTimestamps10s q = concat (map (\<lambda>j. replicate 5 (170 * int j)) (j1 # j2 # js10))"
    and q60: "orderTimestamps60s q = concat (map (\<lambda>j. replicate 5 (170 * int j)) (0 # js60))"
    and old: "\<not> now - 170 * int j1 < 10000"
    and y10: "\<forall>j\<in>set (j2 # js10). now - 170 * int j < 10000"
    and y60: "\<forall>j\<in>set (0 # js60). now - 170 * int j < 60000"
    and len: "239 \<le> length js60"
  shows "snd (processOrders_pass now q) = Saturated (Some (of_int (now + 1)))"
proof -
  let ?f = "\<lambda>j. replicate 5 (170 * int j)"
  have "filter (\<lambda>t. now - t < 10000) (orderTimestamps10s q) =
          filter (\<lambda>t. now - t < 10000) (concat (map ?f (j2 # js10)))"
    unfolding q10 using old by simp
  also have "\<dots> = concat (map ?f (j2 # js10))"
    using y10 by (rule lots_young)
  also have "\<dots> = 170 * int j2 # (replicate 4 (170 * int j2) @ concat (map ?f js10))"
    by (simp add: lot_head)
  finally have w10: "filter (\<lambda>t. now - t < 10000) (orderTimestamps10s q) =
                       170 * int j2 # (replicate 4 (170 * int j2) @ concat (map ?f js10))" .
  have "filter (\<lambda>t. now - t < 60000) (orderTimestamps60s q) = concat (map ?f (0 # js60))"
    unfolding q60 using y60 by (rule lots_young)
  also have "\<dots> = 0 # (replicate 4 0 @ concat (map ?f js60))"
    by (simp add: lot_head)
  finally have w60: "filter (\<lambda>t. now - t < 60000) (orderTimestamps60s q) =
                       0 # (replicate 4 0 @ concat (map ?f js60))" .
  have "1200 \<le> length (0 # (replicate 4 (0::int) @ concat (map ?f js60)))"
    using len by (simp add: lots_length)
  from pass_saturated_sleep [OF w10 w60 disjI2 [OF this]] show ?thesis
    by (simp add: min_def)
qed

lemma saturated_queue_pass:
  "snd (processOrders_pass 40800 saturated_queue) = Saturated (Some 40801)"
proof -
  have s10: "[181..<240] = 181 # 182 # [183..<240]"
    by (simp add: upt_rec [of 181] upt_rec [of 182] del: upt_rec_numeral)
  have s60: "[0..<240] = 0 # [1..<240]"
    by (simp add: upt_rec [of 0] del: upt_rec_numeral)
  have q10: "orderTimestamps10s saturated_queue =
               concat (map (\<lambda>j. replicate 5 (170 * int j)) (181 # 182 # [183..<240]))"
    unfolding saturated_queue_def orderQueueManager.simps s10 ..
  have q60: "orderTimestamps60s saturated_queue =
               concat (map (\<lambda>j. replicate 5 (170 * int j)) (0 # [1..<240]))"
    unfolding saturated_queue_def orderQueueManager.simps s60 ..
  have "snd (processOrders_pass 40800 saturated_queue) = Saturated (Some (of_int (40800 + 1)))"
  proof (rule saturated_lots [OF q10 q60])
    show "\<not> 40800 - 170 * int 181 < 10000" by simp
    show "\<forall>j\<in>set (182 # [183..<240]). 40800 - 170 * int j < 10000"
      by (auto simp del: upt_rec_numeral)
    show "\<forall>j\<in>set (0 # [1..<240]). 40800 - 170 * int j < 60000"
      by (auto simp del: upt_rec_numeral)
    show "239 \<le> length [1..<240]" by (simp del: upt_rec_numeral)
  qed
  then show ?thesis by simp
qed

lemma saturated_queue_oldest:
  "hd (orderTimestamps60s saturated_queue) = 0 \<and> length (orderTimestamps60s saturated_queue) = 1200"
proof -
  have s60: "[0..<240] = 0 # [1..<240]"
    by (simp add: upt_rec [of 0] del: upt_rec_numeral)
  have "hd (orderTimestamps60s saturated_queue) = 0"
    unfolding saturated_queue_def orderQueueManager.simps s60 by (simp add: lot_head del: upt_rec_numeral)
  moreover have "length (orderTimestamps60s saturated_queue) = 1200"
    unfolding saturated_queue_def orderQueueManager.simps by (simp add: lots_length del: upt_rec_numeral)
  ultimately show ?thesis ..
qed

text \<open>
  C5 fails on the code. After 240 lots of five, dispatched 170 milliseconds apart from
  time 0 on, the 60-second window holds 1200 entries, the oldest charged at time 0: it
  leaves the window at time 60000. The pass at time 40800 finds the window saturated
  and asks for a sleep of 40801 milliseconds, the age of the oldest entry plus one,
  where 19200 milliseconds would reach the time the entry leaves the window.
\<close>

theorem saturated_sleep:
  "length (orderTimestamps60s saturated_queue) = 1200 \<and>
   hd (orderTimestamps60s saturated_queue) = 0 \<and>
   snd (processOrders_pass 40800 saturated_queue) = Saturated (Some 40801)"
  using saturated_queue_pass saturated_queue_oldest by simp

section \<open>Bootstrap, tick, stream and leverage\<close>

text \<open>
  C7. When a request of \<open>fetchMarkets\<close>, \<open>fetchTickers\<close>,
  \<open>fetchBalanceAndPositions\<close> or \<open>fetchOrders\<close> fails, the fetch emits the error's
  message on the \<open>error\<close> channel and returns what the store holds; the tick and
  the loading steps of the bootstrap then write that same value back, so the store
  keeps its markets, tickers, positions, balance and orders.
\<close>

theorem fetch_failure_keeps_state:
  "fetchMarkets st (Inl err) r_brackets = ([EmitError (thrown_message err)], markets st) \<and>
   fetchMarkets st (Inr symbols) (Inl err) = ([EmitError (thrown_message err)], markets st) \<and>
   fetchTickers st (Inl err) r_books r_prices = ([EmitError (thrown_message err)], tickers st) \<and>
   fetchTickers st (Inr dailys) (Inl err) r_prices = ([EmitError (thrown_message err)], tickers st) \<and>
   fetchTickers st (Inr dailys) (Inr books) (Inl err) = ([EmitError (thrown_message err)], tickers st) \<and>
   fetchBalanceAndPositions st (Inl err) = ([EmitError (thrown_message err)], positions st, s_balance st) \<and>
   fetchOrders st (Inl err) = ([EmitError (thrown_message err)], orders st) \<and>
   fst (tick False False st (Inl err)) = [EmitError (thrown_message err)] \<and>
   positions (snd (tick False False st (Inl err))) = positions st \<and>
   s_balance (snd (tick False False st (Inl err))) = s_balance st \<and>
   markets (snd (start_markets st (Inl err) r_brackets)) = markets st \<and>
   tickers (snd (start_tickers st (Inl err) r_books r_prices)) = tickers st \<and>
   orders (snd (start_orders st (Inl err))) = orders st"
  by (simp add: fetchMarkets_def fetchTickers_def fetchBalanceAndPositions_def fetchOrders_def
      tick_def start_markets_def start_tickers_def start_orders_def)

theorem fetch_failure_keeps_state_witness:
  "fetchBalanceAndPositions short_store (Inl network_error) =
     ([EmitError (Msg [Str ''Network Error''])], [short_position], s_balance short_store) \<and>
   positions (snd (tick False False short_store (Inl network_error))) = [short_position]"
  using fetch_failure_keeps_state [of short_store network_error]
  by (simp add: thrown_message_def network_error_def short_store_def)

text \<open>
  The bootstrap and the tick keep \<open>contracts\<close> non-negative: the positions
  \<open>fetchBalanceAndPositions\<close> returns are built with \<open>Math.abs\<close>, or are the stored
  ones.
\<close>

lemma fetched_contracts_nonneg:
  assumes "\<forall>p\<in>set (positions st). 0 \<le> p_contracts p"
    and "fetchBalanceAndPositions st r = (em, ps, bal)" and "p \<in> set ps"
  shows "0 \<le> p_contracts p"
  using assms
  by (auto simp: fetchBalanceAndPositions_def account_position_def Let_def
      split: sum.splits)

text \<open>
  C2 fails on the code. The store holds a Short position of 1 contract; the venue's
  \<open>ACCOUNT_UPDATE\<close> for it carries the signed amount \<open>pa = -2\<close>; the private stream
  stores \<open>contracts = -2\<close> on the Short position, with no \<open>Math.abs\<close>.
\<close>

theorem account_update_negative_contracts:
  "map p_contracts (positions short_store) = [1] \<and>
   map p_side (positions short_store) = [Short] \<and>
   map p_contracts (positions (fst (snd (onMessage 0 (Some short_update) (open_socket, short_store, []))))) = [- 2] \<and>
   map p_side (positions (fst (snd (onMessage 0 (Some short_update) (open_socket, short_store, []))))) = [Short]"
  by (simp add: onMessage_def short_update_def open_socket_def short_store_def short_position_def
      handleAccountEvents_def handlePositionSlot_def POSITION_SIDE_def updatePosition_def
      updateBalance_def Let_def)

text \<open>
  C10. \<open>setLeverage\<close> throws for an unknown market, then for a symbol without a
  position. Otherwise the leverage is the input clamped by the market's limits,
  \<open>min (max x lo) hi\<close>, which lies between the limits when they are in order and is
  the input when the input does. When the position's leverage differs from it, the one
  request sent carries the clamped leverage; when it is equal, no request is sent,
  nothing is emitted and the store is unchanged.
\<close>

theorem setLeverage_clamps:
  "(find (\<lambda>m. m_symbol m = smb) (markets st) = None \<longrightarrow>
      setLeverage st smb x r = Inl (MarketNotFound smb)) \<and>
   (find (\<lambda>m. m_symbol m = smb) (markets st) = Some mk \<and>
    find (\<lambda>p. p_symbol p = smb) (positions st) = None \<longrightarrow>
      setLeverage st smb x r = Inl (PositionNotFound smb)) \<and>
   (find (\<lambda>m. m_symbol m = smb) (markets st) = Some mk \<and>
    find (\<lambda>p. p_symbol p = smb) (positions st) = Some pos \<longrightarrow>
      (p_leverage pos \<noteq> min (max x (limits_leverage_min mk)) (limits_leverage_max mk) \<longrightarrow>
         (\<exists>em st'. setLeverage st smb x r =
            Inr ([(smb, min (max x (limits_leverage_min mk)) (limits_leverage_max mk))], em, st'))) \<and>
      (p_leverage pos = min (max x (limits_leverage_min mk)) (limits_leverage_max mk) \<longrightarrow>
         setLeverage st smb x r = Inr ([], [], st)) \<and>
      (limits_leverage_min mk \<le> limits_leverage_max mk \<longrightarrow>
         limits_leverage_min mk \<le> min (max x (limits_leverage_min mk)) (limits_leverage_max mk) \<and>
         min (max x (limits_leverage_min mk)) (limits_leverage_max mk) \<le> limits_leverage_max mk \<and>
         (limits_leverage_min mk \<le> x \<and> x \<le> limits_leverage_max mk \<longrightarrow>
            min (max x (limits_leverage_min mk)) (limits_leverage_max mk) = x)))"
proof (intro conjI impI)
  assume "find (\<lambda>m. m_symbol m = smb) (markets st) = None"
  then show "setLeverage st smb x r = Inl (MarketNotFound smb)"
    by (simp add: setLeverage_def)
next
  assume "find (\<lambda>m. m_symbol m = smb) (markets st) = Some mk \<and>
    find (\<lambda>p. p_symbol p = smb) (positions st) = None"
  then show "setLeverage st smb x r = Inl (PositionNotFound smb)"
    by (simp add: setLeverage_def)
next
  assume a: "find (\<lambda>m. m_symbol m = smb) (markets st) = Some mk \<and>
    find (\<lambda>p. p_symbol p = smb) (positions st) = Some pos"
    and b: "p_leverage pos \<noteq> min (max x (limits_leverage_min mk)) (limits_leverage_max mk)"
  then show "\<exists>em st'. setLeverage st smb x r =
            Inr ([(smb, min (max x (limits_leverage_min mk)) (limits_leverage_max mk))], em, st')"
    by (cases r) (simp_all add: setLeverage_def Let_def)
next
  assume a: "find (\<lambda>m. m_symbol m = smb) (markets st) = Some mk \<and>
    find (\<lambda>p. p_symbol p = smb) (positions st) = Some pos"
    and b: "p_leverage pos = min (max x (limits_leverage_min mk)) (limits_leverage_max mk)"
  then show "setLeverage st smb x r = Inr ([], [], st)"
    by (simp add: setLeverage_def Let_def)
qed auto

theorem setLeverage_clamps_witness:
  "setLeverage short_store ''ETHUSDT'' 5 (Inr ()) = Inl (MarketNotFound ''ETHUSDT'') \<and>
   setLeverage (short_store\<lparr>positions := []\<rparr>) ''BTCUSDT'' 5 (Inr ()) = Inl (PositionNotFound ''BTCUSDT'') \<and>
   (\<exists>em st'. setLeverage short_store ''BTCUSDT'' 500 (Inr ()) = Inr ([(''BTCUSDT'', 125)], em, st')) \<and>
   setLeverage short_store ''BTCUSDT'' 10 (Inr ()) = Inr ([], [], short_store)"
proof -
  let ?mk = "hd (markets short_store)"
  have m0: "find (\<lambda>m. m_symbol m = ''ETHUSDT'') (markets short_store) = None"
    by (simp add: short_store_def)
  have m1: "find (\<lambda>m. m_symbol m = ''BTCUSDT'') (markets short_store) = Some ?mk"
    and m2: "find (\<lambda>m. m_symbol m = ''BTCUSDT'') (markets (short_store\<lparr>positions := []\<rparr>)) = Some ?mk"
    and p0: "find (\<lambda>p. p_symbol p = ''BTCUSDT'') (positions (short_store\<lparr>positions := []\<rparr>)) = None"
    and p1: "find (\<lambda>p. p_symbol p = ''BTCUSDT'') (positions short_store) = Some short_position"
    by (simp_all add: short_store_def short_position_def)
  have lim: "limits_leverage_min ?mk = 1" "limits_leverage_max ?mk = 125"
    and lev: "p_leverage short_position = 10"
    by (simp_all add: short_store_def short_position_def)
  from setLeverage_clamps [of "''ETHUSDT''" short_store 5 "Inr ()"] m0
  have a: "setLeverage short_store ''ETHUSDT'' 5 (Inr ()) = Inl (MarketNotFound ''ETHUSDT'')"
    by blast
  from setLeverage_clamps [of "''BTCUSDT''" "short_store\<lparr>positions := []\<rparr>" 5 "Inr ()" ?mk] m2 p0
  have b: "setLeverage (short_store\<lparr>positions := []\<rparr>) ''BTCUSDT'' 5 (Inr ()) =
             Inl (PositionNotFound ''BTCUSDT'')"
    by blast
  from setLeverage_clamps [of "''BTCUSDT''" short_store 500 "Inr ()" ?mk short_position] m1 p1
  have c: "\<exists>em st'. setLeverage short_store ''BTCUSDT'' 500 (Inr ()) = Inr ([(''BTCUSDT'', 125)], em, st')"
    unfolding lim lev by simp
  from setLeverage_clamps [of "''BTCUSDT''" short_store 10 "Inr ()" ?mk short_position] m1 p1
  have d: "setLeverage short_store ''BTCUSDT'' 10 (Inr ()) = Inr ([], [], short_store)"
    unfolding lim lev by simp
  from a b c d show ?thesis by blast
qed

lemma latency_updatePosition: "latency (updatePosition pos f st) = latency st"
  by (simp add: updatePosition_def)

lemma latency_handlePositionSlot: "latency (handlePositionSlot p st) = latency st"
  by (simp add: handlePositionSlot_def Let_def latency_updatePosition split: option.splits)

lemma latency_handleBalanceSlot: "latency (handleBalanceSlot b st) = latency st"
  by (simp add: handleBalanceSlot_def)

lemma latency_fold:
  assumes "\<And>x s. latency (f x s) = latency s"
  shows "latency (fold f xs st) = latency st"
  using assms by (induction xs arbitrary: st) simp_all

lemma ping_echo_handled:
  assumes live: "\<not> ws_isDisposed ws" and echo: "j_id j = Some 42"
    and ord: "j_e j = Some ''ORDER_TRADE_UPDATE'' \<longrightarrow> j_o j \<noteq> None"
  shows "\<exists>st2 em2. onMessage now (Some j) (ws, st, em) =
           (let ws1 = (case pingTimeoutId ws of
                         Some i \<Rightarrow> if i \<noteq> 0 then (clearTimeout i ws)\<lparr>pingTimeoutId := None\<rparr> else ws
                       | None \<Rightarrow> ws)
            in ((snd (setTimeout 10000 ws1))\<lparr>pingTimeoutId := Some (fst (setTimeout 10000 ws1))\<rparr>,
                st2\<lparr>latency := Math_round ((now - pingAt ws) / 2)\<rparr>, em2)) \<and>
           (j_e j = None \<longrightarrow> st2 = st \<and> em2 = em)"
  using assms
  by (auto simp: onMessage_def Let_def case_prod_beta split: option.splits)

text \<open>
  C8. A live socket that receives a message with \<open>id = 42\<close> stores
  \<open>latency = round((now - pingAt) / 2)\<close>, which is 40 for a ping sent at 1000 and
  answered at 1080; a message without an event type changes nothing else in the store
  and emits nothing. The remembered timeout, when there is one, is cleared, and a new
  timeout of 10000 milliseconds is set and remembered: when the only pending timeouts
  were the remembered one, exactly one is pending afterwards.
\<close>

theorem ping_echo_latency:
  assumes live: "\<not> ws_isDisposed ws" and echo: "j_id j = Some 42"
    and ord: "j_e j = Some ''ORDER_TRADE_UPDATE'' \<longrightarrow> j_o j \<noteq> None"
  shows "latency (fst (snd (onMessage now (Some j) (ws, st, em)))) = Math_round ((now - pingAt ws) / 2) \<and>
         (pingAt ws = 1000 \<and> now = 1080 \<longrightarrow>
            latency (fst (snd (onMessage now (Some j) (ws, st, em)))) = 40) \<and>
         (j_e j = None \<longrightarrow>
            snd (onMessage now (Some j) (ws, st, em)) =
              (st\<lparr>latency := Math_round ((now - pingAt ws) / 2)\<rparr>, em)) \<and>
         pingTimeoutId (fst (onMessage now (Some j) (ws, st, em))) = Some (nextTimeoutId ws) \<and>
         timeouts (fst (onMessage now (Some j) (ws, st, em))) =
           (case pingTimeoutId ws of
              Some i \<Rightarrow> if i \<noteq> 0 then filter (\<lambda>(k, d). k \<noteq> i) (timeouts ws) else timeouts ws
            | None \<Rightarrow> timeouts ws) @ [(nextTimeoutId ws, 10000)] \<and>
         ((\<forall>k\<in>set (map fst (timeouts ws)). k \<noteq> 0 \<and> pingTimeoutId ws = Some k) \<longrightarrow>
            timeouts (fst (onMessage now (Some j) (ws, st, em))) = [(nextTimeoutId ws, 10000)])"
proof -
  from ping_echo_handled [OF assms, of now st em] obtain st2 em2 where
    r: "onMessage now (Some j) (ws, st, em) =
           (let ws1 = (case pingTimeoutId ws of
                         Some i \<Rightarrow> if i \<noteq> 0 then (clearTimeout i ws)\<lparr>pingTimeoutId := None\<rparr> else ws
                       | None \<Rightarrow> ws)
            in ((snd (setTimeout 10000 ws1))\<lparr>pingTimeoutId := Some (fst (setTimeout 10000 ws1))\<rparr>,
                st2\<lparr>latency := Math_round ((now - pingAt ws) / 2)\<rparr>, em2))"
    and e: "j_e j = None \<longrightarrow> st2 = st \<and> em2 = em"
    by (elim exE conjE) (rule that)
  have lat: "latency (fst (snd (onMessage now (Some j) (ws, st, em)))) = Math_round ((now - pingAt ws) / 2)"
    unfolding r by (simp add: Let_def)
  have forty: "Math_round ((1080 - 1000) / 2) = 40"
    by code_simp
  have c: "j_e j = None \<longrightarrow>
            snd (onMessage now (Some j) (ws, st, em)) =
              (st\<lparr>latency := Math_round ((now - pingAt ws) / 2)\<rparr>, em)"
    unfolding r using e by (simp add: Let_def)
  have id: "pingTimeoutId (fst (onMessage now (Some j) (ws, st, em))) = Some (nextTimeoutId ws)"
    unfolding r by (simp add: Let_def setTimeout_def clearTimeout_def split: option.splits)
  have ts: "timeouts (fst (onMessage now (Some j) (ws, st, em))) =
           (case pingTimeoutId ws of
              Some i \<Rightarrow> if i \<noteq> 0 then filter (\<lambda>(k, d). k \<noteq> i) (timeouts ws) else timeouts ws
            | None \<Rightarrow> timeouts ws) @ [(nextTimeoutId ws, 10000)]"
    unfolding r by (simp add: Let_def setTimeout_def clearTimeout_def split: option.splits)
  have single: "timeouts (fst (onMessage now (Some j) (ws, st, em))) = [(nextTimeoutId ws, 10000)]"
    if a: "\<forall>k\<in>set (map fst (timeouts ws)). k \<noteq> 0 \<and> pingTimeoutId ws = Some k"
  proof (cases "timeouts ws")
    case Nil
    then show ?thesis unfolding ts by (simp split: option.splits)
  next
    case (Cons x xs)
    with a have p: "pingTimeoutId ws = Some (fst x)" and nz: "fst x \<noteq> 0" by simp_all
    from a p have "\<forall>y\<in>set (timeouts ws). fst y = fst x" by auto
    then have "filter (\<lambda>(k, d). k \<noteq> fst x) (timeouts ws) = []"
      by (auto simp: filter_empty_conv)
    then show ?thesis unfolding ts p using nz by simp
  qed
  from lat forty c id ts single show ?thesis by (auto simp del: map_map)
qed

theorem ping_echo_latency_witness:
  "\<not> ws_isDisposed open_socket \<and> j_id ping_echo = Some 42 \<and> j_e ping_echo = None \<and>
   pingAt open_socket = 1000 \<and> timeouts open_socket = [(1, 10000)] \<and>
   latency (fst (snd (onMessage 1080 (Some ping_echo) (open_socket, short_store, [])))) = 40 \<and>
   pingTimeoutId (fst (onMessage 1080 (Some ping_echo) (open_socket, short_store, []))) = Some 2 \<and>
   timeouts (fst (onMessage 1080 (Some ping_echo) (open_socket, short_store, []))) = [(2, 10000)]"
proof -
  have l: "\<not> ws_isDisposed open_socket" and i: "j_id ping_echo = Some 42"
    and e: "j_e ping_echo = None"
    and o: "j_e ping_echo = Some ''ORDER_TRADE_UPDATE'' \<longrightarrow> j_o ping_echo \<noteq> None"
    and p: "pingAt open_socket = 1000" and n: "nextTimeoutId open_socket = 2"
    and t: "timeouts open_socket = [(1, 10000)]" and d: "pingTimeoutId open_socket = Some 1"
    by (simp_all add: open_socket_def ping_echo_def)
  from ping_echo_latency [OF l i o, of 1080 short_store "[]"]
  have "latency (fst (snd (onMessage 1080 (Some ping_echo) (open_socket, short_store, [])))) = 40"
    and "pingTimeoutId (fst (onMessage 1080 (Some ping_echo) (open_socket, short_store, []))) = Some 2"
    and "timeouts (fst (onMessage 1080 (Some ping_echo) (open_socket, short_store, []))) = [(2, 10000)]"
    unfolding p n t d by simp_all
  with l i e p t show ?thesis by blast
qed

end
